theory Spec2Isabelle
  imports Complex_Main
begin

section \<open>JavaScript values used by the time-tracking screen\<close>

text \<open>
  The attendance client is a React Native screen (\<open>TimeTracking\<close>) and a hook
  (\<open>useBiometricAuth\<close>). Their handlers are embedded as functions from the values a handler
  reads (its render closure), the state its setters write, and the answers of its
  collaborators (platform, storage, server) to the state after the call and the list of
  calls it made on the collaborators, in program order.

  Strings are \<open>string\<close>. An optional string field is a \<open>string option\<close>; JavaScript
  treats \<open>undefined\<close>, \<open>null\<close> and the empty string alike in a condition. A number that
  the code only copies or compares (a coordinate, a radius, an accuracy, an amount of
  hours) is the real number it denotes; a timestamp is an integer of milliseconds.
\<close>

definition truthy :: "string option \<Rightarrow> bool" where
  "truthy v = (case v of None \<Rightarrow> False | Some s \<Rightarrow> s \<noteq> [])"

text \<open>\<open>String.prototype.startsWith\<close> and \<open>String.prototype.includes\<close> (named \<open>includesStr\<close> here).\<close>

fun startsWith :: "string \<Rightarrow> string \<Rightarrow> bool" where
  "startsWith s [] = True"
| "startsWith [] (c # cs) = False"
| "startsWith (d # ds) (c # cs) = (d = c \<and> startsWith ds cs)"

fun includesStr :: "string \<Rightarrow> string \<Rightarrow> bool" where
  "includesStr [] sub = startsWith [] sub"
| "includesStr (d # ds) sub = (startsWith (d # ds) sub \<or> includesStr ds sub)"

text \<open>Decimal rendering of an integer, as a template literal renders an integral number.\<close>

definition digitChar :: "nat \<Rightarrow> char" where
  "digitChar d = ''0123456789'' ! d"

fun showNat :: "nat \<Rightarrow> string" where
  "showNat n = (if n < 10 then [digitChar n] else showNat (n div 10) @ [digitChar (n mod 10)])"

declare showNat.simps [simp del]

definition showInt :: "int \<Rightarrow> string" where
  "showInt i = (if i < 0 then CHR ''-'' # showNat (nat (- i)) else showNat (nat i))"

text \<open>
  \<open>Math.round\<close> of the haversine product is an integral number of meters or \<open>NaN\<close>.
  \<open>NaN\<close> compares false with everything.
\<close>

datatype rounded = NaN | Meters int

fun lessEq :: "rounded \<Rightarrow> real \<Rightarrow> bool" where
  "lessEq NaN r = False"
| "lessEq (Meters d) r = (real_of_int d \<le> r)"

fun showDistance :: "rounded option \<Rightarrow> string" where
  "showDistance None = ''null''"
| "showDistance (Some NaN) = ''NaN''"
| "showDistance (Some (Meters d)) = showInt d"

text \<open>
  A JavaScript number on which the code does arithmetic is a finite double (named by the
  real number it denotes), an infinity or \<open>NaN\<close>. The two zeros are not told apart:
  nothing the code does with a result depends on the sign of a zero. \<open>Math.PI\<close> is the
  double nearest to \<open>\<pi>\<close>.
\<close>

datatype number = NotANumber | PlusInfinity | MinusInfinity | Finite real

definition mathPI :: real where
  "mathPI = 884279719003555 / 281474976710656"

text \<open>
  \<open>Math.round\<close>: the nearest integer, a half going up, and \<open>NaN\<close> for \<open>NaN\<close>. An infinity
  would be returned as it is; the haversine product is none, \<open>Math.atan2\<close> being bounded,
  and the distance cell of the model has no value for one.
\<close>

fun mathRound :: "number \<Rightarrow> rounded" where
  "mathRound (Finite x) = Meters \<lfloor>x + 1 / 2\<rfloor>"
| "mathRound NotANumber = NaN"
| "mathRound PlusInfinity = NaN"
| "mathRound MinusInfinity = NaN"

section \<open>The biometric hook (\<open>useBiometricAuth\<close>)\<close>

record BiometricStatus =
  available :: bool
  enrolled :: bool
  enabled :: bool

text \<open>The options object handed to \<open>LocalAuthentication.authenticateAsync\<close>.\<close>

record LocalAuthenticationOptions =
  promptMessage :: string
  fallbackLabel :: string
  disableDeviceFallback :: bool

text \<open>The platform call resolves to an object with a \<open>success\<close> flag, or rejects.\<close>

datatype AuthResult = AuthResolved bool | AuthRejected

datatype session = AM | PM

datatype toastType = ToastSuccess | ToastError | ToastWarning

text \<open>
  Request bodies: \<open>{coordinates, session, biometricAuthenticated}\<close> of time-in and time-out,
  and \<open>{undertimeDate, undertime, makeup, makeupDate}\<close> of an offset.
\<close>

datatype postBody =
  TimeEventBody "real list" session bool
| OffsetBody string real real "string option"

text \<open>
  The calls a handler makes on its collaborators. \<open>Authenticate\<close> is the call of the hook's
  \<open>authenticate\<close>, \<open>AuthenticateAsync\<close> the platform prompt, \<open>HttpGet\<close> and \<open>HttpPost\<close> the
  axios requests with their URL. Console output is recorded only for the location watch.
\<close>

datatype event =
  Toast string toastType
| RouterReplace string
| Authenticate string bool
| AuthenticateAsync LocalAuthenticationOptions
| HttpGet string
| HttpPost string postBody
| ConsoleLog string "real option"

text \<open>
  \<open>authenticate(promptMessage, forceAuth)\<close> of the hook. The platform's answer is the
  parameter \<open>authenticateAsync\<close>: it may depend on the options, so an embedding that passed
  other options would be told apart.
\<close>

definition authenticate ::
  "(LocalAuthenticationOptions \<Rightarrow> AuthResult) \<Rightarrow> BiometricStatus \<Rightarrow> string \<Rightarrow> bool
    \<Rightarrow> bool \<times> event list" where
  "authenticate authenticateAsync biometricStatus prompt forceAuth =
    (if \<not> available biometricStatus \<or> \<not> enrolled biometricStatus then (False, [])
     else
       let isTimeTrackingOperation = (includesStr prompt ''time in'' \<or> includesStr prompt ''time out'')
       in if \<not> enabled biometricStatus \<and> \<not> isTimeTrackingOperation \<and> \<not> forceAuth
          then (True, [])
          else
            let opts = \<lparr> promptMessage = prompt, fallbackLabel = '''',
                         disableDeviceFallback = True \<rparr>
            in (case authenticateAsync opts of
                  AuthResolved success \<Rightarrow> (success, [AuthenticateAsync opts])
                | AuthRejected \<Rightarrow> (False, [AuthenticateAsync opts])))"

section \<open>The time-tracking screen: data\<close>

text \<open>
  \<open>Location.LocationObject\<close> (its \<open>coords\<close>), \<open>OfficeLocation\<close> and \<open>TimeRecord\<close>. The
  office's \<open>coordinates\<close> array is in wire order, longitude first. Of a time record only the
  fields that the handlers below read are kept.
\<close>

record LocationObject =
  latitude :: real
  longitude :: real
  accuracy :: "real option"

record OfficeLocation =
  office_id :: string
  name :: string
  coordinates :: "real list"
  radius :: real
  address :: string

record TimeRecord =
  record_id :: string
  date :: string
  timeIn :: "string option"
  timeOut :: "string option"
  amTimeIn :: "string option"
  amTimeOut :: "string option"
  pmTimeIn :: "string option"
  pmTimeOut :: "string option"

text \<open>
  The \<open>useState\<close> cells of the screen that the handlers below read or write, together with
  the \<open>biometricStatus\<close> the hook hands to the screen.
\<close>

record TimeTracking =
  loading :: bool
  refreshing :: bool
  currentLocation :: "LocationObject option"
  officeLocation :: "OfficeLocation option"
  timeRecords :: "TimeRecord list"
  activeSession :: session
  activeTimeRecord :: "TimeRecord option"
  isWithinRange :: bool
  distance :: "rounded option"
  rawTimeRecords :: "TimeRecord list option"
  showOffsetModal :: bool
  selectedRecord :: "TimeRecord option"
  undertime :: real
  makeup :: real
  makeupDate :: string
  undertimeDate :: string
  availableDates :: "string list"
  biometricStatus :: BiometricStatus

definition initialState :: TimeTracking where
  "initialState =
    \<lparr> loading = True, refreshing = False, currentLocation = None, officeLocation = None,
      timeRecords = [], activeSession = AM, activeTimeRecord = None, isWithinRange = False,
      distance = None, rawTimeRecords = None, showOffsetModal = False, selectedRecord = None,
      undertime = 0, makeup = 0, makeupDate = [], undertimeDate = [], availableDates = [],
      biometricStatus = \<lparr> available = False, enrolled = False, enabled = False \<rparr> \<rparr>"

text \<open>The session cells of the screen.\<close>

definition sessionState :: "TimeTracking \<Rightarrow> TimeRecord list \<times> TimeRecord option \<times> session" where
  "sessionState st = (timeRecords st, activeTimeRecord st, activeSession st)"

text \<open>
  What the collaborators answer during one handler run. \<open>AsyncStorage.getItem\<close> resolves to
  a string or \<open>null\<close>, or rejects; an axios call resolves with data or rejects, a rejected
  post carrying the server's \<open>error\<close> field when there is one.

  The \<open>Date\<close> library is a parameter: \<open>dateParse\<close> is \<open>new Date(s).getTime()\<close> (\<open>None\<close>
  for an invalid date), \<open>localMidnight\<close> is \<open>setHours(0,0,0,0)\<close>, \<open>localHours\<close>,
  \<open>localFullYear\<close>, \<open>localMonth\<close>, \<open>localDate\<close> are the getters in the device's time zone.

  The arithmetic on doubles and \<open>Math.sin\<close>, \<open>Math.cos\<close>, \<open>Math.sqrt\<close>, \<open>Math.atan2\<close>
  belong to the engine and are parameters too (\<open>numAdd\<close>, \<open>numSub\<close>, \<open>numMul\<close>, \<open>numDiv\<close>
  and the \<open>math\<close> functions), and so is \<open>Array.prototype.sort\<close> (\<open>arraySort\<close>), which
  decides the order of a list on which the comparator is not a consistent order.
\<close>

datatype StorageResult = StorageValue "string option" | StorageRejected

datatype PostResult = PostOk string | PostFailed "string option"

record collaborators =
  API_URL :: string
  userToken :: StorageResult
  now :: int
  dateParse :: "string \<Rightarrow> int option"
  localMidnight :: "int \<Rightarrow> int"
  localHours :: "int \<Rightarrow> int"
  localFullYear :: "int \<Rightarrow> int"
  localMonth :: "int \<Rightarrow> int"
  localDate :: "int \<Rightarrow> int"
  authenticateAsync :: "LocalAuthenticationOptions \<Rightarrow> AuthResult"
  highAccuracyPosition :: "LocationObject option"
  balancedPosition :: "LocationObject option"
  httpGetOffice :: "string \<Rightarrow> OfficeLocation option"
  httpGetRecords :: "string \<Rightarrow> TimeRecord list option"
  httpPost :: "string \<Rightarrow> postBody \<Rightarrow> PostResult"
  numAdd :: "number \<Rightarrow> number \<Rightarrow> number"
  numSub :: "number \<Rightarrow> number \<Rightarrow> number"
  numMul :: "number \<Rightarrow> number \<Rightarrow> number"
  numDiv :: "number \<Rightarrow> number \<Rightarrow> number"
  mathSin :: "number \<Rightarrow> number"
  mathCos :: "number \<Rightarrow> number"
  mathSqrt :: "number \<Rightarrow> number"
  mathAtan2 :: "number \<Rightarrow> number \<Rightarrow> number"
  arraySort :: "(TimeRecord \<Rightarrow> TimeRecord \<Rightarrow> int) \<Rightarrow> TimeRecord list \<Rightarrow> TimeRecord list"

text \<open>\<open>a || b\<close> on an optional string and a default.\<close>

definition orDefault :: "string option \<Rightarrow> string \<Rightarrow> string" where
  "orDefault v d = (case v of None \<Rightarrow> d | Some s \<Rightarrow> if s = [] then d else s)"

definition isHttp :: "event \<Rightarrow> bool" where
  "isHttp e = (case e of HttpGet u \<Rightarrow> True | HttpPost u b \<Rightarrow> True | _ \<Rightarrow> False)"

definition isPost :: "event \<Rightarrow> bool" where
  "isPost e = (case e of HttpPost u b \<Rightarrow> True | _ \<Rightarrow> False)"

definition isGet :: "event \<Rightarrow> bool" where
  "isGet e = (case e of HttpGet u \<Rightarrow> True | _ \<Rightarrow> False)"

definition isBiometric :: "event \<Rightarrow> bool" where
  "isBiometric e = (case e of Authenticate p f \<Rightarrow> True | AuthenticateAsync opts \<Rightarrow> True | _ \<Rightarrow> False)"

section \<open>Geofence\<close>

text \<open>
  The distance that \<open>checkOfficeRange\<close> computes, operation by operation as written, the
  operators associating to the left: \<open>x * Math.PI/180\<close> is a product divided by 180, and the
  second summand of \<open>a\<close> is three products in a row.
\<close>

definition roundedHaversine :: "collaborators \<Rightarrow> real \<Rightarrow> real \<Rightarrow> real \<Rightarrow> real \<Rightarrow> rounded" where
  "roundedHaversine w userLat userLong officeLat officeLong =
    (let R = Finite 6371000;
         phi1 = numDiv w (numMul w (Finite userLat) (Finite mathPI)) (Finite 180);
         phi2 = numDiv w (numMul w (Finite officeLat) (Finite mathPI)) (Finite 180);
         deltaPhi = numDiv w (numMul w (numSub w (Finite officeLat) (Finite userLat))
                                       (Finite mathPI)) (Finite 180);
         deltaLambda = numDiv w (numMul w (numSub w (Finite officeLong) (Finite userLong))
                                          (Finite mathPI)) (Finite 180);
         a = numAdd w
               (numMul w (mathSin w (numDiv w deltaPhi (Finite 2)))
                         (mathSin w (numDiv w deltaPhi (Finite 2))))
               (numMul w
                  (numMul w (numMul w (mathCos w phi1) (mathCos w phi2))
                            (mathSin w (numDiv w deltaLambda (Finite 2))))
                  (mathSin w (numDiv w deltaLambda (Finite 2))));
         c = numMul w (Finite 2)
               (mathAtan2 w (mathSqrt w a) (mathSqrt w (numSub w (Finite 1) a)))
     in mathRound (numMul w R c))"

text \<open>
  \<open>checkOfficeRange(location)\<close>. It reads \<open>officeLocation\<close> from the render closure \<open>cl\<close>
  and writes \<open>distance\<close> and \<open>isWithinRange\<close>. A \<open>coordinates\<close> array with fewer than two
  entries destructures to \<open>undefined\<close>, and the arithmetic on it gives \<open>NaN\<close>.
\<close>

definition checkOfficeRange ::
  "collaborators \<Rightarrow> TimeTracking \<Rightarrow> LocationObject option \<Rightarrow> TimeTracking \<Rightarrow> TimeTracking" where
  "checkOfficeRange w cl location st =
    (case officeLocation cl of
       None \<Rightarrow> st
     | Some office \<Rightarrow>
        (case location of
           None \<Rightarrow> st
         | Some loc \<Rightarrow>
            let meters = (case coordinates office of
                          officeLong # officeLat # rest \<Rightarrow>
                            roundedHaversine w (latitude loc) (longitude loc) officeLat officeLong
                        | _ \<Rightarrow> NaN);
                isWithin = lessEq meters (radius office)
            in st\<lparr>distance := Some meters, isWithinRange := isWithin\<rparr>))"

definition defaultOfficeLocation :: OfficeLocation where
  "defaultOfficeLocation =
    \<lparr> office_id = ''default_office_id'', name = ''Default Office'',
      coordinates = [120.59097690306716, 18.20585558594641],
      radius = 100, address = ''Default Office Address'' \<rparr>"

definition fetchOfficeLocation ::
  "collaborators \<Rightarrow> TimeTracking \<Rightarrow> TimeTracking \<Rightarrow> TimeTracking \<times> event list" where
  "fetchOfficeLocation w cl st =
    (let url = API_URL w @ ''/api/office-location'';
         catch = (\<lambda>s. s\<lparr>officeLocation := Some defaultOfficeLocation, isWithinRange := False\<rparr>)
     in case userToken w of
          StorageRejected \<Rightarrow> (catch st, [])
        | StorageValue token \<Rightarrow>
           if \<not> truthy token then (st, [RouterReplace ''/''])
           else (case httpGetOffice w url of
                   None \<Rightarrow> (catch st, [HttpGet url])
                 | Some fetchedOfficeLocation \<Rightarrow>
                    let s1 = st\<lparr>officeLocation := Some fetchedOfficeLocation\<rparr>
                    in if currentLocation cl \<noteq> None
                       then (checkOfficeRange w cl (currentLocation cl) s1, [HttpGet url])
                       else (s1\<lparr>isWithinRange := False, distance := None\<rparr>, [HttpGet url])))"

text \<open>
  \<open>getCurrentLocation\<close>: high accuracy first (the ten-second race is part of the answer
  \<open>highAccuracyPosition\<close>), one retry at balanced accuracy.
\<close>

definition getCurrentLocation ::
  "collaborators \<Rightarrow> TimeTracking \<Rightarrow> TimeTracking \<Rightarrow> TimeTracking \<times> event list" where
  "getCurrentLocation w cl st =
    (case highAccuracyPosition w of
       Some location \<Rightarrow>
         (checkOfficeRange w cl (Some location) (st\<lparr>currentLocation := Some location\<rparr>), [])
     | None \<Rightarrow>
        (case balancedPosition w of
           Some location \<Rightarrow>
             (checkOfficeRange w cl (Some location) (st\<lparr>currentLocation := Some location\<rparr>), [])
         | None \<Rightarrow>
             (st, [Toast ''Unable to get your current location. Please check your device settings and ensure location services are enabled.'' ToastError])))"

text \<open>The callback handed to \<open>Location.watchPositionAsync\<close>.\<close>

definition watchPosition ::
  "collaborators \<Rightarrow> TimeTracking \<Rightarrow> LocationObject \<Rightarrow> TimeTracking \<Rightarrow> TimeTracking \<times> event list" where
  "watchPosition w cl location st =
    (if (case accuracy location of None \<Rightarrow> False | Some a \<Rightarrow> a \<noteq> 0 \<and> a < 30)
     then
       let s1 = st\<lparr>currentLocation := Some location\<rparr>
       in if officeLocation cl \<noteq> None
          then (checkOfficeRange w cl (Some location) s1, [])
          else fetchOfficeLocation w cl s1
     else (st, [ConsoleLog ''Ignored location update due to low accuracy:'' (accuracy location)]))"

section \<open>Time records and the active session\<close>

text \<open>
  The comparator of the sort in \<open>fetchTimeRecords\<close>, newest first; a \<open>NaN\<close> difference
  counts as zero. Where every date parses the comparator is a consistent order and the
  sort, which is stable, places a record before the first record it does not have to
  follow. Where some date does not parse the order is the engine's.
\<close>

definition compareRecords :: "collaborators \<Rightarrow> TimeRecord \<Rightarrow> TimeRecord \<Rightarrow> int" where
  "compareRecords w a b =
    (case dateParse w (date b) of
       None \<Rightarrow> 0
     | Some tb \<Rightarrow> (case dateParse w (date a) of None \<Rightarrow> 0 | Some ta \<Rightarrow> tb - ta))"

fun insertRecord :: "collaborators \<Rightarrow> TimeRecord \<Rightarrow> TimeRecord list \<Rightarrow> TimeRecord list" where
  "insertRecord w x [] = [x]"
| "insertRecord w x (y # ys) =
    (if compareRecords w x y \<le> 0 then x # y # ys else y # insertRecord w x ys)"

definition sortRecords :: "collaborators \<Rightarrow> TimeRecord list \<Rightarrow> TimeRecord list" where
  "sortRecords w records =
    (if list_all (\<lambda>record. dateParse w (date record) \<noteq> None) records
     then foldr (insertRecord w) records []
     else arraySort w (compareRecords w) records)"

text \<open>
  \<open>fetchTimeRecords\<close>. It reads \<open>activeSession\<close> from its closure; the first two branches
  of the resolution do not call \<open>setActiveSession\<close>. The \<open>finally\<close> block also runs on the
  early return.
\<close>

definition fetchTimeRecords ::
  "collaborators \<Rightarrow> TimeTracking \<Rightarrow> TimeTracking \<Rightarrow> TimeTracking \<times> event list" where
  "fetchTimeRecords w cl st =
    (let url = API_URL w @ ''/api/time-records'';
         finally = (\<lambda>s. s\<lparr>loading := False, refreshing := False\<rparr>);
         catch = (\<lambda>s. s\<lparr>timeRecords := [], rawTimeRecords := None\<rparr>);
         failed = Toast ''Failed to fetch time records. Please check your connection or try again.'' ToastError
     in case userToken w of
          StorageRejected \<Rightarrow> (finally (catch st), [failed])
        | StorageValue token \<Rightarrow>
           if \<not> truthy token then (finally st, [RouterReplace ''/''])
           else (case httpGetRecords w url of
                   None \<Rightarrow> (finally (catch st), [HttpGet url, failed])
                 | Some data \<Rightarrow>
                    let sortedRecords = sortRecords w data;
                        s1 = st\<lparr>rawTimeRecords := Some data, timeRecords := sortedRecords\<rparr>;
                        today = localMidnight w (now w);
                        todayRecords = filter (\<lambda>record.
                            case dateParse w (date record) of
                              None \<Rightarrow> False
                            | Some t \<Rightarrow> localMidnight w t = today) sortedRecords;
                        activeAMRecord = find (\<lambda>record.
                            (truthy (amTimeIn record) \<and> \<not> truthy (amTimeOut record)) \<or>
                            (truthy (timeIn record) \<and> \<not> truthy (timeOut record))) todayRecords;
                        activePMRecord = find (\<lambda>record.
                            (truthy (pmTimeIn record) \<and> \<not> truthy (pmTimeOut record)) \<or>
                            (truthy (timeIn record) \<and> \<not> truthy (timeOut record))) todayRecords;
                        s2 = (if activeSession cl = AM \<and> activeAMRecord \<noteq> None
                              then s1\<lparr>activeTimeRecord := activeAMRecord\<rparr>
                              else if activeSession cl = PM \<and> activePMRecord \<noteq> None
                              then s1\<lparr>activeTimeRecord := activePMRecord\<rparr>
                              else if activeAMRecord \<noteq> None
                              then s1\<lparr>activeTimeRecord := activeAMRecord, activeSession := AM\<rparr>
                              else if activePMRecord \<noteq> None
                              then s1\<lparr>activeTimeRecord := activePMRecord, activeSession := PM\<rparr>
                              else s1\<lparr>activeTimeRecord := None,
                                      activeSession := (if localHours w (now w) < 12 then AM else PM)\<rparr>)
                    in (finally s2, [HttpGet url])))"

section \<open>Time-in and time-out\<close>

text \<open>
  \<open>handleTimeIn\<close> and \<open>handleTimeOut\<close>. Every value they test comes from the closure \<open>cl\<close>
  of the render in which the button was pressed. The refresh that \<open>handleTimeOut\<close> starts
  without awaiting is run to its end here, so the state returned is the state once both have
  settled.
\<close>

definition handleTimeIn ::
  "collaborators \<Rightarrow> TimeTracking \<Rightarrow> TimeTracking \<Rightarrow> TimeTracking \<times> event list" where
  "handleTimeIn w cl st =
    (case currentLocation cl of
       None \<Rightarrow> (st, [Toast ''Unable to get your current location'' ToastError])
     | Some loc \<Rightarrow>
        if \<not> isWithinRange cl
        then (st, [Toast (''You must be within office range to time in. You are currently ''
                          @ showDistance (distance cl) @ '' meters away from the office.'')
                     ToastWarning])
        else if \<not> available (biometricStatus cl) \<or> \<not> enrolled (biometricStatus cl)
        then (st, [Toast ''Biometric authentication is not set up on this device. Please enroll your fingerprint in device settings.'' ToastError])
        else
          let (authenticated, prompts) =
                authenticate (authenticateAsync w) (biometricStatus cl) ''Authenticate to time in'' True;
              t0 = Authenticate ''Authenticate to time in'' True # prompts
          in if \<not> authenticated
             then (st, t0 @ [Toast ''Biometric authentication failed or was cancelled'' ToastError])
             else
               let s1 = st\<lparr>loading := True\<rparr>;
                   finally = (\<lambda>s. s\<lparr>loading := False\<rparr>)
               in (case userToken w of
                     StorageRejected \<Rightarrow>
                       (finally s1, t0 @ [Toast ''Failed to record time-in'' ToastError])
                   | StorageValue token \<Rightarrow>
                      if \<not> truthy token then (finally s1, t0 @ [RouterReplace ''/''])
                      else
                        let coords = [longitude loc, latitude loc];
                            url = API_URL w @ ''/api/time-records/time-in'';
                            body = TimeEventBody coords (activeSession cl) True
                        in (case httpPost w url body of
                              PostFailed err \<Rightarrow>
                                (finally s1, t0 @ [HttpPost url body,
                                   Toast (orDefault err ''Failed to record time-in'') ToastError])
                            | PostOk message \<Rightarrow>
                                (case fetchTimeRecords w cl s1 of
                                   (s2, refresh) \<Rightarrow>
                                     (finally s2, t0 @ [HttpPost url body,
                                        Toast message ToastSuccess] @ refresh)))))"

definition handleTimeOut ::
  "collaborators \<Rightarrow> TimeTracking \<Rightarrow> TimeTracking \<Rightarrow> TimeTracking \<times> event list" where
  "handleTimeOut w cl st =
    (case activeTimeRecord cl of
       None \<Rightarrow> (st, [Toast ''No active time record found'' ToastError])
     | Some active \<Rightarrow>
    (case currentLocation cl of
       None \<Rightarrow> (st, [Toast ''Unable to get your current location'' ToastError])
     | Some loc \<Rightarrow>
        if \<not> isWithinRange cl
        then (st, [Toast (''You must be within office range to time out. You are currently ''
                          @ showDistance (distance cl) @ '' meters away from the office.'')
                     ToastWarning])
        else if \<not> available (biometricStatus cl) \<or> \<not> enrolled (biometricStatus cl)
        then (st, [Toast ''Biometric authentication is not set up on this device. Please enroll your fingerprint in device settings.'' ToastError])
        else
          let (authenticated, prompts) =
                authenticate (authenticateAsync w) (biometricStatus cl) ''Authenticate to time out'' True;
              t0 = Authenticate ''Authenticate to time out'' True # prompts
          in if \<not> authenticated
             then (st, t0 @ [Toast ''Biometric authentication failed or was cancelled'' ToastError])
             else
               let s1 = st\<lparr>loading := True\<rparr>;
                   finally = (\<lambda>s. s\<lparr>loading := False\<rparr>)
               in (case userToken w of
                     StorageRejected \<Rightarrow>
                       (finally s1, t0 @ [Toast ''Failed to record time-out'' ToastError])
                   | StorageValue token \<Rightarrow>
                      if \<not> truthy token then (finally s1, t0 @ [RouterReplace ''/''])
                      else
                        let coords = [longitude loc, latitude loc];
                            url = API_URL w @ ''/api/time-records/'' @ record_id active @ ''/time-out'';
                            body = TimeEventBody coords (activeSession cl) True
                        in (case httpPost w url body of
                              PostFailed err \<Rightarrow>
                                (finally s1, t0 @ [HttpPost url body,
                                   Toast (orDefault err ''Failed to record time-out'') ToastError])
                            | PostOk message \<Rightarrow>
                                (case fetchTimeRecords w cl (s1\<lparr>activeTimeRecord := None\<rparr>) of
                                   (s2, refresh) \<Rightarrow>
                                     (finally s2, t0 @ [HttpPost url body,
                                        Toast message ToastSuccess] @ refresh))))))"

section \<open>Offset submission\<close>

text \<open>\<open>String(n).padStart(2, '0')\<close> and \<open>formatRecordDate\<close>; an invalid date prints \<open>NaN\<close>.\<close>

definition padStart2 :: "string \<Rightarrow> string" where
  "padStart2 s = replicate (2 - length s) (CHR ''0'') @ s"

definition formatRecordDate :: "collaborators \<Rightarrow> string \<Rightarrow> string" where
  "formatRecordDate w dateString =
    (case dateParse w dateString of
       None \<Rightarrow> ''NaN-NaN-NaN''
     | Some t \<Rightarrow> showInt (localFullYear w t) @ ''-'' @ padStart2 (showInt (localMonth w t + 1))
                  @ ''-'' @ padStart2 (showInt (localDate w t)))"

text \<open>The test of the regular expression \<open>^[0-9]{4}-[0-9]{2}-[0-9]{2}$\<close>.\<close>

definition isDigit :: "char \<Rightarrow> bool" where
  "isDigit c = (c \<in> set ''0123456789'')"

definition matchesDateFormat :: "string \<Rightarrow> bool" where
  "matchesDateFormat s =
    (length s = 10 \<and> list_all isDigit (take 4 s) \<and> s ! 4 = CHR ''-''
      \<and> list_all isDigit (take 2 (drop 5 s)) \<and> s ! 7 = CHR ''-''
      \<and> list_all isDigit (drop 8 s))"

text \<open>
  \<open>makeupDateObj < today\<close>, both set to local midnight; an invalid date compares false.
\<close>

definition beforeToday :: "collaborators \<Rightarrow> string \<Rightarrow> bool" where
  "beforeToday w s =
    (case dateParse w s of
       None \<Rightarrow> False
     | Some t \<Rightarrow> localMidnight w t < localMidnight w (now w))"

definition handleOffsetSubmit ::
  "collaborators \<Rightarrow> TimeTracking \<Rightarrow> TimeTracking \<Rightarrow> TimeTracking \<times> event list" where
  "handleOffsetSubmit w cl st =
    (case selectedRecord cl of
       None \<Rightarrow> (st, [Toast ''No record selected'' ToastError])
     | Some selected \<Rightarrow>
        if makeupDate cl \<noteq> [] \<and> \<not> matchesDateFormat (makeupDate cl)
        then (st, [Toast ''Makeup date must be in YYYY-MM-DD format'' ToastError])
        else if undertimeDate cl \<notin> set (availableDates cl)
        then (st, [Toast ''Undertime date must exist in daily records'' ToastError])
        else
          (case find (\<lambda>record. formatRecordDate w (date record) = undertimeDate cl) (timeRecords cl) of
             None \<Rightarrow> (st, [Toast ''Could not find the selected undertime date record'' ToastError])
           | Some undertimeRecord \<Rightarrow>
              if makeupDate cl \<noteq> [] \<and> beforeToday w (makeupDate cl)
              then (st, [Toast ''Makeup date must be today or a future date'' ToastError])
              else
                let s1 = st\<lparr>loading := True\<rparr>;
                    finally = (\<lambda>s. s\<lparr>loading := False\<rparr>)
                in (case userToken w of
                      StorageRejected \<Rightarrow>
                        (finally s1, [Toast ''Failed to submit offset'' ToastError])
                    | StorageValue token \<Rightarrow>
                       if \<not> truthy token then (finally s1, [RouterReplace ''/''])
                       else
                         let url = API_URL w @ ''/api/time-records/'' @ record_id undertimeRecord @ ''/offset'';
                             body = OffsetBody (undertimeDate cl) (undertime cl) (makeup cl)
                                      (if makeupDate cl = [] then None else Some (makeupDate cl))
                         in (case httpPost w url body of
                               PostFailed err \<Rightarrow>
                                 (finally s1, [HttpPost url body,
                                    Toast (orDefault err ''Failed to submit offset'') ToastError])
                             | PostOk message \<Rightarrow>
                                 (case fetchTimeRecords w cl (s1\<lparr>showOffsetModal := False\<rparr>) of
                                    (s2, refresh) \<Rightarrow>
                                      (finally s2, [HttpPost url body,
                                         Toast message ToastSuccess] @ refresh))))))"

section \<open>The specification's readings\<close>





text \<open>
  The validation rules of an offset as an ordered list of checks with their messages, in
  the order in which the handler applies them; the first check that fails decides.
\<close>

definition offsetRules :: "collaborators \<Rightarrow> TimeTracking \<Rightarrow> (bool \<times> string) list" where
  "offsetRules w cl =
    [ (selectedRecord cl \<noteq> None, ''No record selected''),
      (makeupDate cl = [] \<or> matchesDateFormat (makeupDate cl),
         ''Makeup date must be in YYYY-MM-DD format''),
      (undertimeDate cl \<in> set (availableDates cl),
         ''Undertime date must exist in daily records''),
      (list_ex (\<lambda>r. formatRecordDate w (date r) = undertimeDate cl) (timeRecords cl),
         ''Could not find the selected undertime date record''),
      (makeupDate cl = [] \<or> \<not> beforeToday w (makeupDate cl),
         ''Makeup date must be today or a future date'') ]"

definition firstFailure :: "(bool \<times> string) list \<Rightarrow> string option" where
  "firstFailure rules = map_option snd (find (\<lambda>rule. \<not> fst rule) rules)"

text \<open>The geofence cells of the screen.\<close>

definition geofenceCells ::
  "TimeTracking \<Rightarrow> LocationObject option \<times> OfficeLocation option \<times> bool \<times> rounded option" where
  "geofenceCells st = (currentLocation st, officeLocation st, isWithinRange st, distance st)"

text \<open>
  The invariant of the geofence cells, over the renders of a run, newest first:
  \<open>isWithinRange\<close> holds only if a current location is known and the \<open>distance\<close> cell holds a
  number of meters that is at most the radius of an office location that some render of
  the run has held.
\<close>

definition geofenceInv :: "TimeTracking list \<Rightarrow> bool" where
  "geofenceInv renders =
    (case renders of
       [] \<Rightarrow> True
     | st # past \<Rightarrow>
        (isWithinRange st \<longrightarrow>
           currentLocation st \<noteq> None
           \<and> list_ex (\<lambda>p. case officeLocation p of
                            None \<Rightarrow> False
                          | Some office \<Rightarrow>
                             (case distance st of
                                None \<Rightarrow> False
                              | Some meters \<Rightarrow> lessEq meters (radius office)))
                (st # past)))"

text \<open>
  The runs of the geofence cells, as the list of the states that were rendered, newest
  first. The handlers are asynchronous and are never cancelled: a handler reads the cells
  of the render that created it and writes after its awaits, when other handlers may have
  written. So a step applies the writes of one handler to the newest state, with a closure
  \<open>cl\<close> whose \<open>officeLocation\<close> and \<open>currentLocation\<close> are those of any earlier render. The
  setter calls that a handler makes between two awaits take effect together. The watch
  callback stores the sample before it awaits the office-location fetch, which is a step
  of its own. \<open>fetchOfficeLocation\<close> is only called where the closure has no office
  location. No other code of the screen calls \<open>setCurrentLocation\<close>, \<open>setOfficeLocation\<close>,
  \<open>setIsWithinRange\<close> or \<open>setDistance\<close>.
\<close>

definition closureOf :: "TimeTracking list \<Rightarrow> TimeTracking \<Rightarrow> bool" where
  "closureOf renders cl =
    list_ex (\<lambda>p. officeLocation cl = officeLocation p \<and> currentLocation cl = currentLocation p)
      renders"

inductive run :: "TimeTracking list \<Rightarrow> bool" where
  start: "run [initialState]"
| located: "run (st # past) \<Longrightarrow> closureOf (st # past) cl
            \<Longrightarrow> run (fst (getCurrentLocation w cl st) # st # past)"
| office: "run (st # past) \<Longrightarrow> closureOf (st # past) cl \<Longrightarrow> officeLocation cl = None
            \<Longrightarrow> run (fst (fetchOfficeLocation w cl st) # st # past)"
| sample: "run (st # past) \<Longrightarrow> closureOf (st # past) cl
            \<Longrightarrow> run (fst (watchPosition w cl location st) # st # past)"
| stored: "run (st # past) \<Longrightarrow> run (st\<lparr>currentLocation := Some location\<rparr> # st # past)"
| other: "run (st # past) \<Longrightarrow> geofenceCells st' = geofenceCells st \<Longrightarrow> run (st' # st # past)"

section \<open>Scenarios\<close>

text \<open>
  Concrete collaborators and states for the scenarios of the specification: an office with
  a radius of 100 m, a user 0.0009 degrees north of it, a device clock in UTC on
  2025-01-15, and a platform that accepts the fingerprint only when the device fallback is
  disabled.
\<close>

definition scenarioOffice :: OfficeLocation where
  "scenarioOffice =
    \<lparr> office_id = ''office-1'', name = ''Main Office'', coordinates = [120.5910, 18.2058],
      radius = 100, address = ''Main Street'' \<rparr>"

definition scenarioLocation :: LocationObject where
  "scenarioLocation = \<lparr> latitude = 18.2067, longitude = 120.5910, accuracy = Some 10 \<rparr>"

definition scenarioRecord :: TimeRecord where
  "scenarioRecord =
    \<lparr> record_id = ''rec-1'', date = ''2025-01-15'', timeIn = None, timeOut = None,
      amTimeIn = Some ''2025-01-15T08:00:00Z'', amTimeOut = None,
      pmTimeIn = None, pmTimeOut = None \<rparr>"

text \<open>
  The engine of the scenarios: double-precision arithmetic, and \<open>Math.sin\<close>, \<open>Math.cos\<close>,
  \<open>Math.sqrt\<close> and \<open>Math.atan2\<close> rounded to the nearest double, given by the tables of the
  operations that the scenarios perform, operands first, result last. A decimal literal is
  read as the double nearest to it. A \<open>NaN\<close> operand gives \<open>NaN\<close>, and so does the square
  root of a negative number; an operation that is not listed has no value here.
\<close>

definition scenarioProducts :: "((real \<times> real) \<times> real) list" where
  "scenarioProducts =
    [ ((182067 / 10000, 884279719003555 / 281474976710656), 8049907779991013 / 140737488355328),
      ((91029 / 5000, 884279719003555 / 281474976710656), 8049509854117461 / 140737488355328),
      ((- (989560465 / 1099511627776), 884279719003555 / 281474976710656), - (407476094517497 / 144115188075855872)),
      ((0, 884279719003555 / 281474976710656), 0),
      ((- (4636172453129191 / 590295810358705651712), - (4636172453129191 / 590295810358705651712)), 2386323917930471 / 38685626227668133590597632),
      ((4278129260664999 / 4503599627370496, 2139075681655163 / 2251799813685248), 4063967946373151 / 4503599627370496),
      ((4063967946373151 / 4503599627370496, 0), 0),
      ((0, 0), 0),
      ((2, 4636172453176855 / 590295810358705651712), 4636172453176855 / 295147905179352825856),
      ((6371000, 4636172453176855 / 295147905179352825856), 1760545653056487 / 17592186044416),
      ((2139075681655163 / 2251799813685248, 2139075681655163 / 2251799813685248), 4063988942569541 / 4503599627370496),
      ((4063988942569541 / 4503599627370496, 0), 0),
      ((2, 0), 0),
      ((6371000, 0), 0),
      ((36417 / 2000, 884279719003555 / 281474976710656), 2012675907934529 / 35184372088832),
      ((- (759982437119 / 281474976710656), 884279719003555 / 281474976710656), - (2444856567101765 / 288230376151711744)),
      ((- (217320583722271 / 9223372036854775808), - (217320583722271 / 9223372036854775808)), 1342307203611557 / 2417851639229258349412352),
      ((8556170104415183 / 9007199254740992, 2139075681655163 / 2251799813685248), 8127851901944287 / 9007199254740992),
      ((8127851901944287 / 9007199254740992, 0), 0),
      ((2, 1738564669939033 / 73786976294838206464), 1738564669939033 / 36893488147419103232),
      ((6371000, 1738564669939033 / 36893488147419103232), 5281636959162511 / 17592186044416),
      ((8, 884279719003555 / 281474976710656), 884279719003555 / 35184372088832),
      ((- 8, 884279719003555 / 281474976710656), - (884279719003555 / 35184372088832)),
      ((- 16, 884279719003555 / 281474976710656), - (884279719003555 / 17592186044416)),
      ((180, 884279719003555 / 281474976710656), 4974073419394997 / 8796093022208),
      ((- (5014239404989977 / 36028797018963968), - (5014239404989977 / 36028797018963968)), 1395694493897217 / 72057594037927936),
      ((4459770905381437 / 4503599627370496, 4459770905381437 / 4503599627370496), 8832737443003841 / 9007199254740992),
      ((8832737443003841 / 9007199254740992, 1), 8832737443003841 / 9007199254740992),
      ((1820671 / 100000, 884279719003555 / 281474976710656), 1006239025173701 / 17592186044416),
      ((- (256142228807 / 281474976710656), 884279719003555 / 281474976710656), - (6592057706857981 / 2305843009213693952)),
      ((- (146490171261971 / 18446744073709551616), - (146490171261971 / 18446744073709551616)), 2439647946216791 / 38685626227668133590597632),
      ((4278129015074121 / 4503599627370496, 2139075681655163 / 2251799813685248), 4063967713076447 / 4503599627370496),
      ((4063967713076447 / 4503599627370496, 0), 0),
      ((2, 4687685480432343 / 590295810358705651712), 4687685480432343 / 295147905179352825856),
      ((6371000, 4687685480432343 / 295147905179352825856), 3560214542846019 / 35184372088832),
      ((1820585558594641 / 100000000000000, 884279719003555 / 281474976710656), 2012383607719999 / 35184372088832),
      ((- (237681426069 / 281474976710656), 884279719003555 / 281474976710656), - (3058475917447643 / 1152921504606846976)),
      ((- (812651079 / 35184372088832), 884279719003555 / 281474976710656), - (2677034094132691 / 36893488147419103232)),
      ((- (2174916207943085 / 295147905179352825856), - (2174916207943085 / 295147905179352825856)), 8402630611878565 / 154742504910672534362390528),
      ((4278129260664999 / 4503599627370496, 8556299996467469 / 9007199254740992), 4063966649638407 / 4503599627370496),
      ((4063966649638407 / 4503599627370496, - (7614674756644047 / 37778931862957161709568)), - (1717836109962615 / 9444732965739290427392)),
      ((- (1717836109962615 / 9444732965739290427392), - (7614674756644047 / 37778931862957161709568)), 5809025821516625 / 158456325028528675187087900672),
      ((2, 1087825130406729 / 147573952589676412928), 1087825130406729 / 73786976294838206464),
      ((6371000, 1087825130406729 / 73786976294838206464), 3304736092482219 / 35184372088832),
      ((- (186084096037 / 70368744177664), 884279719003555 / 281474976710656), - (4789046714857363 / 576460752303423488)),
      ((- (1702772165131485 / 73786976294838206464), - (1702772165131485 / 73786976294838206464)), 5150427722260825 / 9671406556917033397649408),
      ((8556170104415183 / 9007199254740992, 8556299996467469 / 9007199254740992), 8127849308501599 / 9007199254740992),
      ((8127849308501599 / 9007199254740992, - (7614674756644047 / 37778931862957161709568)), - (3435636717078133 / 18889465931478580854784)),
      ((- (3435636717078133 / 18889465931478580854784), - (7614674756644047 / 37778931862957161709568)), 2904482896696679 / 79228162514264337593543950336),
      ((2, 1702830772979563 / 73786976294838206464), 1702830772979563 / 36893488147419103232),
      ((6371000, 1702830772979563 / 36893488147419103232), 646634987273979 / 2199023255552),
      ((15646052971 / 281474976710656, 884279719003555 / 281474976710656), 6442650838154655 / 36893488147419103232),
      ((1145360149005227 / 2361183241434822606848, 1145360149005227 / 2361183241434822606848), 2330313490491555 / 9903520314283042199192993792),
      ((2139075681655163 / 2251799813685248, 8556299996467469 / 9007199254740992), 8127975291656195 / 9007199254740992),
      ((8127975291656195 / 9007199254740992, - (7614674756644047 / 37778931862957161709568)), - (3435689970077203 / 18889465931478580854784)),
      ((- (3435689970077203 / 18889465931478580854784), - (7614674756644047 / 37778931862957161709568)), 2904527916714141 / 79228162514264337593543950336),
      ((2, 4925424412750729 / 9444732965739290427392), 4925424412750729 / 4722366482869645213696),
      ((6371000, 4925424412750729 / 4722366482869645213696), 3740773073868143 / 562949953421312) ]"

definition scenarioQuotients :: "((real \<times> real) \<times> real) list" where
  "scenarioQuotients =
    [ ((8049907779991013 / 140737488355328, 180), 5724378865771387 / 18014398509481984),
      ((8049509854117461 / 140737488355328, 180), 2862047948130653 / 9007199254740992),
      ((- (407476094517497 / 144115188075855872), 180), - (4636172453176855 / 295147905179352825856)),
      ((0, 180), 0),
      ((- (4636172453176855 / 295147905179352825856), 2), - (4636172453176855 / 590295810358705651712)),
      ((0, 2), 0),
      ((2012675907934529 / 35184372088832, 180), 5724944804791549 / 18014398509481984),
      ((- (2444856567101765 / 288230376151711744), 180), - (1738564669939033 / 36893488147419103232)),
      ((- (1738564669939033 / 36893488147419103232), 2), - (1738564669939033 / 73786976294838206464)),
      ((884279719003555 / 35184372088832, 180), 5030569068109113 / 36028797018963968),
      ((- (884279719003555 / 35184372088832), 180), - (5030569068109113 / 36028797018963968)),
      ((- (884279719003555 / 17592186044416), 180), - (5030569068109113 / 18014398509481984)),
      ((4974073419394997 / 8796093022208, 180), 884279719003555 / 281474976710656),
      ((- (5030569068109113 / 18014398509481984), 2), - (5030569068109113 / 36028797018963968)),
      ((884279719003555 / 281474976710656, 2), 884279719003555 / 562949953421312),
      ((1006239025173701 / 17592186044416, 180), 5724382009877055 / 18014398509481984),
      ((- (6592057706857981 / 2305843009213693952), 180), - (2343842740216171 / 147573952589676412928)),
      ((- (2343842740216171 / 147573952589676412928), 2), - (2343842740216171 / 295147905179352825856)),
      ((2012383607719999 / 35184372088832, 180), 5724113373070219 / 18014398509481984),
      ((- (3058475917447643 / 1152921504606846976), 180), - (8699664831851073 / 590295810358705651712)),
      ((- (2677034094132691 / 36893488147419103232), 180), - (7614674756644099 / 18889465931478580854784)),
      ((- (8699664831851073 / 590295810358705651712), 2), - (8699664831851073 / 1180591620717411303424)),
      ((- (7614674756644099 / 18889465931478580854784), 2), - (7614674756644099 / 37778931862957161709568)),
      ((- (4789046714857363 / 576460752303423488), 180), - (851386082641309 / 18446744073709551616)),
      ((- (851386082641309 / 18446744073709551616), 2), - (851386082641309 / 36893488147419103232)),
      ((6442650838154655 / 36893488147419103232, 180), 143170018625659 / 147573952589676412928),
      ((143170018625659 / 147573952589676412928, 2), 143170018625659 / 295147905179352825856) ]"

definition scenarioDifferences :: "((real \<times> real) \<times> real) list" where
  "scenarioDifferences =
    [ ((91029 / 5000, 182067 / 10000), - (989560465 / 1099511627776)),
      ((120591 / 1000, 120591 / 1000), 0),
      ((1, 2386323917930471 / 38685626227668133590597632), 9007199254185383 / 9007199254740992),
      ((91029 / 5000, 91029 / 5000), 0),
      ((1, 0), 1),
      ((91029 / 5000, 36417 / 2000), - (759982437119 / 281474976710656)),
      ((1, 1342307203611557 / 2417851639229258349412352), 2251799812435127 / 2251799813685248),
      ((- 8, 8), - 16),
      ((180, 0), 180),
      ((1, 4503599627370497 / 4503599627370496), - (1 / 4503599627370496)),
      ((91029 / 5000, 1820671 / 100000), - (256142228807 / 281474976710656)),
      ((1, 2439647946216791 / 38685626227668133590597632), 9007199254172967 / 9007199254740992),
      ((1820585558594641 / 100000000000000, 182067 / 10000), - (237681426069 / 281474976710656)),
      ((3014774422576679 / 25000000000000, 120591 / 1000), - (812651079 / 35184372088832)),
      ((1, 4204151744328695 / 77371252455336267181195264), 2251799813562891 / 2251799813685248),
      ((1820585558594641 / 100000000000000, 36417 / 2000), - (186084096037 / 70368744177664)),
      ((1, 1287695568348919 / 2417851639229258349412352), 562949953121497 / 562949953421312),
      ((1820585558594641 / 100000000000000, 91029 / 5000), 15646052971 / 281474976710656),
      ((1, 5386758960161645 / 19807040628566084398385987584), 4503599627369271 / 4503599627370496) ]"

definition scenarioSums :: "((real \<times> real) \<times> real) list" where
  "scenarioSums =
    [ ((2386323917930471 / 38685626227668133590597632, 0), 2386323917930471 / 38685626227668133590597632),
      ((0, 0), 0),
      ((1342307203611557 / 2417851639229258349412352, 0), 1342307203611557 / 2417851639229258349412352),
      ((1395694493897217 / 72057594037927936, 8832737443003841 / 9007199254740992), 4503599627370497 / 4503599627370496),
      ((2439647946216791 / 38685626227668133590597632, 0), 2439647946216791 / 38685626227668133590597632),
      ((8402630611878565 / 154742504910672534362390528, 5809025821516625 / 158456325028528675187087900672), 4204151744328695 / 77371252455336267181195264),
      ((5150427722260825 / 9671406556917033397649408, 2904482896696679 / 79228162514264337593543950336), 1287695568348919 / 2417851639229258349412352),
      ((2330313490491555 / 9903520314283042199192993792, 2904527916714141 / 79228162514264337593543950336), 5386758960161645 / 19807040628566084398385987584) ]"

definition scenarioSines :: "(real \<times> real) list" where
  "scenarioSines =
    [ (- (4636172453176855 / 590295810358705651712), - (4636172453129191 / 590295810358705651712)),
      (0, 0),
      (- (1738564669939033 / 73786976294838206464), - (217320583722271 / 9223372036854775808)),
      (- (5030569068109113 / 36028797018963968), - (5014239404989977 / 36028797018963968)),
      (884279719003555 / 562949953421312, 1),
      (- (2343842740216171 / 295147905179352825856), - (146490171261971 / 18446744073709551616)),
      (- (8699664831851073 / 1180591620717411303424), - (2174916207943085 / 295147905179352825856)),
      (- (7614674756644099 / 37778931862957161709568), - (7614674756644047 / 37778931862957161709568)),
      (- (851386082641309 / 36893488147419103232), - (1702772165131485 / 73786976294838206464)),
      (143170018625659 / 295147905179352825856, 1145360149005227 / 2361183241434822606848) ]"

definition scenarioCosines :: "(real \<times> real) list" where
  "scenarioCosines =
    [ (5724378865771387 / 18014398509481984, 4278129260664999 / 4503599627370496),
      (2862047948130653 / 9007199254740992, 2139075681655163 / 2251799813685248),
      (5724944804791549 / 18014398509481984, 8556170104415183 / 9007199254740992),
      (5030569068109113 / 36028797018963968, 4459770905381437 / 4503599627370496),
      (- (5030569068109113 / 36028797018963968), 4459770905381437 / 4503599627370496),
      (5724382009877055 / 18014398509481984, 4278129015074121 / 4503599627370496),
      (5724113373070219 / 18014398509481984, 8556299996467469 / 9007199254740992) ]"

definition scenarioRoots :: "(real \<times> real) list" where
  "scenarioRoots =
    [ (2386323917930471 / 38685626227668133590597632, 4636172453129191 / 590295810358705651712),
      (9007199254185383 / 9007199254740992, 9007199254463187 / 9007199254740992),
      (0, 0),
      (1, 1),
      (1342307203611557 / 2417851639229258349412352, 217320583722271 / 9223372036854775808),
      (2251799812435127 / 2251799813685248, 4503599626120375 / 4503599627370496),
      (4503599627370497 / 4503599627370496, 1),
      (2439647946216791 / 38685626227668133590597632, 146490171261971 / 18446744073709551616),
      (9007199254172967 / 9007199254740992, 9007199254456979 / 9007199254740992),
      (4204151744328695 / 77371252455336267181195264, 8702601043175019 / 1180591620717411303424),
      (2251799813562891 / 2251799813685248, 4503599627248139 / 4503599627370496),
      (1287695568348919 / 2417851639229258349412352, 3405661545656829 / 147573952589676412928),
      (562949953121497 / 562949953421312, 1125899906542809 / 1125899906842624),
      (5386758960161645 / 19807040628566084398385987584, 2462712206375253 / 4722366482869645213696),
      (4503599627369271 / 4503599627370496, 9007199254739767 / 9007199254740992) ]"

definition scenarioArcTangents :: "((real \<times> real) \<times> real) list" where
  "scenarioArcTangents =
    [ ((4636172453129191 / 590295810358705651712, 9007199254463187 / 9007199254740992), 4636172453176855 / 590295810358705651712),
      ((0, 1), 0),
      ((217320583722271 / 9223372036854775808, 4503599626120375 / 4503599627370496), 1738564669939033 / 73786976294838206464),
      ((146490171261971 / 18446744073709551616, 9007199254456979 / 9007199254740992), 4687685480432343 / 590295810358705651712),
      ((8702601043175019 / 1180591620717411303424, 4503599627248139 / 4503599627370496), 1087825130406729 / 147573952589676412928),
      ((3405661545656829 / 147573952589676412928, 1125899906542809 / 1125899906842624), 1702830772979563 / 73786976294838206464),
      ((2462712206375253 / 4722366482869645213696, 9007199254739767 / 9007199254740992), 4925424412750729 / 9444732965739290427392) ]"

definition tableOp :: "((real \<times> real) \<times> real) list \<Rightarrow> number \<Rightarrow> number \<Rightarrow> number" where
  "tableOp table a b =
    (case a of
       NotANumber \<Rightarrow> NotANumber
     | Finite x \<Rightarrow>
        (case b of
           NotANumber \<Rightarrow> NotANumber
         | Finite y \<Rightarrow> (case map_of table (x, y) of Some r \<Rightarrow> Finite r | None \<Rightarrow> undefined)
         | _ \<Rightarrow> undefined)
     | _ \<Rightarrow> (case b of NotANumber \<Rightarrow> NotANumber | _ \<Rightarrow> undefined))"

definition tableFun :: "(real \<times> real) list \<Rightarrow> number \<Rightarrow> number" where
  "tableFun table a =
    (case a of
       Finite x \<Rightarrow> (case map_of table x of Some r \<Rightarrow> Finite r | None \<Rightarrow> undefined)
     | _ \<Rightarrow> NotANumber)"

definition scenarioSqrt :: "number \<Rightarrow> number" where
  "scenarioSqrt a =
    (case a of
       Finite x \<Rightarrow> if x < 0 then NotANumber else tableFun scenarioRoots (Finite x)
     | PlusInfinity \<Rightarrow> PlusInfinity
     | _ \<Rightarrow> NotANumber)"

definition scenarioAtan2 :: "number \<Rightarrow> number \<Rightarrow> number" where
  "scenarioAtan2 a b = tableOp scenarioArcTangents a b"

text \<open>
  The sort of the scenarios' engine, as V8 sorts an array of fewer than 64 elements: the
  run at the start of the array is found, and reversed if it is strictly descending; then
  each further element is inserted at the place that a binary search of the sorted part
  gives it.
\<close>

fun runLength :: "('a \<Rightarrow> 'a \<Rightarrow> int) \<Rightarrow> bool \<Rightarrow> 'a \<Rightarrow> 'a list \<Rightarrow> nat" where
  "runLength comparefn descending previous [] = 0"
| "runLength comparefn descending previous (current # rest) =
    (if (if descending then comparefn current previous < 0 else \<not> comparefn current previous < 0)
     then Suc (runLength comparefn descending current rest)
     else 0)"

function binarySearch :: "('a \<Rightarrow> 'a \<Rightarrow> int) \<Rightarrow> 'a \<Rightarrow> 'a list \<Rightarrow> nat" where
  "binarySearch comparefn pivot ordered =
    (if ordered = [] then 0
     else if comparefn pivot (ordered ! (length ordered div 2)) < 0
          then binarySearch comparefn pivot (take (length ordered div 2) ordered)
          else length ordered div 2 + 1
               + binarySearch comparefn pivot (drop (length ordered div 2 + 1) ordered))"
  by pat_completeness auto
termination
  by (relation "measure (\<lambda>(comparefn, pivot, ordered). length ordered)") auto

declare binarySearch.simps [simp del]

definition binaryInsertion :: "('a \<Rightarrow> 'a \<Rightarrow> int) \<Rightarrow> 'a list \<Rightarrow> 'a \<Rightarrow> 'a list" where
  "binaryInsertion comparefn ordered pivot =
    take (binarySearch comparefn pivot ordered) ordered
      @ pivot # drop (binarySearch comparefn pivot ordered) ordered"

definition engineSort :: "('a \<Rightarrow> 'a \<Rightarrow> int) \<Rightarrow> 'a list \<Rightarrow> 'a list" where
  "engineSort comparefn elements =
    (case elements of
       first # second # rest \<Rightarrow>
        let descending = comparefn second first < 0;
            n = 2 + runLength comparefn descending second rest
        in foldl (binaryInsertion comparefn)
             (if descending then rev (take n elements) else take n elements)
             (drop n elements)
     | _ \<Rightarrow> elements)"

definition scenarioWorld :: "int \<Rightarrow> StorageResult \<Rightarrow> PostResult \<Rightarrow> TimeRecord list option \<Rightarrow> collaborators" where
  "scenarioWorld hour token posted records =
    \<lparr> API_URL = ''https://attendance.example'',
      userToken = token,
      now = 20103 * 86400000 + hour * 3600000,
      dateParse = (\<lambda>s. if s = ''2025-01-15'' then Some (20103 * 86400000)
                        else if s = ''2000-01-01'' then Some (10957 * 86400000)
                        else None),
      localMidnight = (\<lambda>t. t - t mod 86400000),
      localHours = (\<lambda>t. (t mod 86400000) div 3600000),
      localFullYear = (\<lambda>t. if t div 86400000 = 20103 then 2025 else 2000),
      localMonth = (\<lambda>t. 0),
      localDate = (\<lambda>t. if t div 86400000 = 20103 then 15 else 1),
      authenticateAsync = (\<lambda>opts. AuthResolved (disableDeviceFallback opts)),
      highAccuracyPosition = Some scenarioLocation,
      balancedPosition = None,
      httpGetOffice = (\<lambda>url. Some scenarioOffice),
      httpGetRecords = (\<lambda>url. records),
      httpPost = (\<lambda>url body. posted),
      numAdd = tableOp scenarioSums,
      numSub = tableOp scenarioDifferences,
      numMul = tableOp scenarioProducts,
      numDiv = tableOp scenarioQuotients,
      mathSin = tableFun scenarioSines,
      mathCos = tableFun scenarioCosines,
      mathSqrt = scenarioSqrt,
      mathAtan2 = scenarioAtan2,
      arraySort = engineSort \<rparr>"

definition scenarioState :: TimeTracking where
  "scenarioState =
    initialState\<lparr> loading := False, currentLocation := Some scenarioLocation,
                  officeLocation := Some scenarioOffice, isWithinRange := True,
                  distance := Some (Meters 100),
                  biometricStatus := \<lparr> available = True, enrolled = True, enabled = False \<rparr> \<rparr>"

text \<open>The offset form filled in for the record of 2025-01-15, with a given makeup date.\<close>

definition scenarioOffsetForm :: "string \<Rightarrow> TimeTracking" where
  "scenarioOffsetForm makeupDay =
    scenarioState\<lparr> timeRecords := [scenarioRecord], selectedRecord := Some scenarioRecord,
                   undertime := 2, makeup := 1, makeupDate := makeupDay,
                   undertimeDate := ''2025-01-15'', availableDates := [''2025-01-15''] \<rparr>"

text \<open>A position sample taken at the office whose reported accuracy is zero.\<close>

definition zeroAccuracySample :: LocationObject where
  "zeroAccuracySample = \<lparr> latitude = 18.2058, longitude = 120.5910, accuracy = Some 0 \<rparr>"


text \<open>
  The same office with a radius of 500 m, a user 0.0027 degrees north of it, and a pair of
  antipodal points: an office at 8 degrees south on the 180th meridian and a user at
  8 degrees north on the prime meridian.
\<close>

definition wideOffice :: OfficeLocation where
  "wideOffice = scenarioOffice\<lparr>radius := 500\<rparr>"

definition farLocation :: LocationObject where
  "farLocation = \<lparr> latitude = 18.2085, longitude = 120.5910, accuracy = Some 10 \<rparr>"

definition antipodalOffice :: OfficeLocation where
  "antipodalOffice =
    \<lparr> office_id = ''office-2'', name = ''Island Office'', coordinates = [180, - 8],
      radius = 100, address = ''Date Line'' \<rparr>"

definition antipodalLocation :: LocationObject where
  "antipodalLocation = \<lparr> latitude = 8, longitude = 0, accuracy = Some 10 \<rparr>"

text \<open>
  A run in which two office-location fetches of renders without an office location are in
  flight and a position request is started in between: the first fetch stores the office
  of radius 500 m; the render that follows starts \<open>getCurrentLocation\<close>; the second fetch
  fails and puts the default office in place; then the position request resolves, 300 m
  from the office of the render that started it.
\<close>

definition wideFetched :: TimeTracking where
  "wideFetched =
    fst (fetchOfficeLocation
           ((scenarioWorld 9 (StorageValue (Some ''token'')) (PostOk ''ok'') (Some []))
              \<lparr>httpGetOffice := (\<lambda>url. Some wideOffice)\<rparr>)
           initialState initialState)"

definition defaultSubstituted :: TimeTracking where
  "defaultSubstituted =
    fst (fetchOfficeLocation
           ((scenarioWorld 9 (StorageValue (Some ''token'')) (PostOk ''ok'') (Some []))
              \<lparr>httpGetOffice := (\<lambda>url. None)\<rparr>)
           initialState wideFetched)"

definition staleLocated :: TimeTracking where
  "staleLocated =
    fst (getCurrentLocation
           ((scenarioWorld 9 (StorageValue (Some ''token'')) (PostOk ''ok'') (Some []))
              \<lparr>highAccuracyPosition := Some farLocation\<rparr>)
           wideFetched defaultSubstituted)"

section \<open>Biometric gate: no passcode fallback, no dependence on the preference\<close>

text \<open>
  C6. For a time-tracking authentication (\<open>forceAuth\<close> set, or a prompt that contains
  \<open>time in\<close> or \<open>time out\<close>): when \<open>authenticate\<close> returns true, it made exactly one platform
  call, with the fallback label empty and the device fallback disabled, and the platform
  resolved that very call with success; and the result and the calls made are the same
  whatever the \<open>enabled\<close> preference is.
\<close>

theorem authenticate_time_tracking:
  assumes tt: "forceAuth \<or> includesStr prompt ''time in'' \<or> includesStr prompt ''time out''"
  shows "(fst (authenticate plat bs prompt forceAuth) \<longrightarrow>
            (\<exists>opts. snd (authenticate plat bs prompt forceAuth) = [AuthenticateAsync opts]
                \<and> disableDeviceFallback opts \<and> fallbackLabel opts = ''''
                \<and> promptMessage opts = prompt
                \<and> plat opts = AuthResolved True
                \<and> available bs \<and> enrolled bs))
       \<and> authenticate plat (bs\<lparr>enabled := e1\<rparr>) prompt forceAuth
           = authenticate plat (bs\<lparr>enabled := e2\<rparr>) prompt forceAuth"
  using tt by (auto simp: authenticate_def Let_def split: AuthResult.splits)


text \<open>The prompt of \<open>handleTimeIn\<close>, forced, on a device whose preference is off.\<close>

theorem authenticate_time_tracking_witness:
  "(True \<or> includesStr ''Authenticate to time in'' ''time in''
         \<or> includesStr ''Authenticate to time in'' ''time out'')
   \<and> fst (authenticate (\<lambda>opts. AuthResolved (disableDeviceFallback opts))
        \<lparr> available = True, enrolled = True, enabled = False \<rparr> ''Authenticate to time in'' True)
   \<and> (\<exists>opts. snd (authenticate (\<lambda>opts. AuthResolved (disableDeviceFallback opts))
                  \<lparr> available = True, enrolled = True, enabled = False \<rparr>
                  ''Authenticate to time in'' True) = [AuthenticateAsync opts]
          \<and> disableDeviceFallback opts \<and> fallbackLabel opts = [])
   \<and> authenticate (\<lambda>opts. AuthResolved (disableDeviceFallback opts))
        (\<lparr> available = True, enrolled = True, enabled = False \<rparr>\<lparr>enabled := True\<rparr>)
        ''Authenticate to time in'' True
      = authenticate (\<lambda>opts. AuthResolved (disableDeviceFallback opts))
        (\<lparr> available = True, enrolled = True, enabled = False \<rparr>\<lparr>enabled := False\<rparr>)
        ''Authenticate to time in'' True"
proof -
  let ?plat = "\<lambda>opts. AuthResolved (disableDeviceFallback opts)"
  let ?bs = "\<lparr> available = True, enrolled = True, enabled = False \<rparr>"
  have h: "True \<or> includesStr ''Authenticate to time in'' ''time in''
         \<or> includesStr ''Authenticate to time in'' ''time out''" by simp
  note t = authenticate_time_tracking [OF h, of ?plat ?bs True False]
  have run: "fst (authenticate ?plat ?bs ''Authenticate to time in'' True)"
    by (simp add: authenticate_def)
  from t [THEN conjunct1, rule_format, OF run]
  have calls: "\<exists>opts. snd (authenticate ?plat ?bs ''Authenticate to time in'' True)
                  = [AuthenticateAsync opts]
          \<and> disableDeviceFallback opts \<and> fallbackLabel opts = []"
    by blast
  show ?thesis by (rule conjI [OF h conjI [OF run conjI [OF calls t [THEN conjunct2]]]])
qed

section \<open>Time-in outside the geofence\<close>

lemma startsWith_append: "startsWith (b @ c) b"
  by (induction b) auto

lemma includesStr_append: "includesStr (a @ b @ c) b"
proof (induction a)
  case Nil
  show ?case by (cases "b @ c") (use startsWith_append[of b c] in auto)
next
  case (Cons x a)
  then show ?case by simp
qed

lemma showInt_150: "showInt 150 = ''150''"
  by (simp add: showInt_def showNat.simps digitChar_def)

text \<open>
  C1, as amended. For every call of \<open>handleTimeIn\<close> whose closure has \<open>isWithinRange\<close>
  false: the state is left as it was; neither \<open>authenticate\<close> nor the platform prompt is
  called and no request is sent; with no current location the one message is the
  no-location denial, and with a current location the one message is a warning that
  contains the rendering of the \<open>distance\<close> cell; and the whole outcome is the same for
  every biometric status and every platform answer, so the range is decided before the
  biometric values are looked at.
\<close>

theorem handleTimeIn_outside_range:
  assumes out: "\<not> isWithinRange cl"
  shows "fst (handleTimeIn w cl st) = st
     \<and> filter isBiometric (snd (handleTimeIn w cl st)) = []
     \<and> filter isHttp (snd (handleTimeIn w cl st)) = []
     \<and> (currentLocation cl = None \<longrightarrow>
          snd (handleTimeIn w cl st) = [Toast ''Unable to get your current location'' ToastError])
     \<and> (currentLocation cl \<noteq> None \<longrightarrow>
          (\<exists>m. snd (handleTimeIn w cl st) = [Toast m ToastWarning]
             \<and> includesStr m (showDistance (distance cl))))
     \<and> handleTimeIn (w\<lparr>authenticateAsync := plat\<rparr>) (cl\<lparr>biometricStatus := bs\<rparr>) st
          = handleTimeIn w cl st"
proof (cases "currentLocation cl")
  case None
  then show ?thesis by (simp add: handleTimeIn_def isBiometric_def isHttp_def)
next
  case (Some loc)
  have inc: "includesStr (''You must be within office range to time in. You are currently ''
              @ showDistance (distance cl) @ '' meters away from the office.'')
             (showDistance (distance cl))"
    by (rule includesStr_append)
  from Some out inc show ?thesis
    by (simp add: handleTimeIn_def isBiometric_def isHttp_def)
qed

text \<open>
  The scenario of the specification: 150 m from an office of radius 100 m. The message
  names the distance, the state is untouched, nothing biometric and no request happens.
\<close>

theorem handleTimeIn_outside_range_witness:
  "\<not> isWithinRange (scenarioState\<lparr>isWithinRange := False, distance := Some (Meters 150)\<rparr>)
   \<and> snd (handleTimeIn (scenarioWorld 9 (StorageValue (Some ''token'')) (PostOk ''Time in recorded'') (Some []))
           (scenarioState\<lparr>isWithinRange := False, distance := Some (Meters 150)\<rparr>) scenarioState)
      = [Toast ''You must be within office range to time in. You are currently 150 meters away from the office.'' ToastWarning]
   \<and> fst (handleTimeIn (scenarioWorld 9 (StorageValue (Some ''token'')) (PostOk ''Time in recorded'') (Some []))
           (scenarioState\<lparr>isWithinRange := False, distance := Some (Meters 150)\<rparr>) scenarioState)
      = scenarioState
   \<and> filter isHttp (snd (handleTimeIn (scenarioWorld 9 (StorageValue (Some ''token'')) (PostOk ''Time in recorded'') (Some []))
           (scenarioState\<lparr>isWithinRange := False, distance := Some (Meters 150)\<rparr>) scenarioState)) = []"
proof -
  let ?cl = "scenarioState\<lparr>isWithinRange := False, distance := Some (Meters 150)\<rparr>"
  let ?w = "scenarioWorld 9 (StorageValue (Some ''token'')) (PostOk ''Time in recorded'') (Some [])"
  have h: "\<not> isWithinRange ?cl" by simp
  note t = handleTimeIn_outside_range [OF h, of ?w scenarioState]
  have msg: "snd (handleTimeIn ?w ?cl scenarioState)
      = [Toast ''You must be within office range to time in. You are currently 150 meters away from the office.'' ToastWarning]"
    by (simp add: handleTimeIn_def scenarioState_def initialState_def showInt_150)
  from t have st: "fst (handleTimeIn ?w ?cl scenarioState) = scenarioState" by blast
  from t have net: "filter isHttp (snd (handleTimeIn ?w ?cl scenarioState)) = []" by blast
  from h msg st net show ?thesis by blast
qed

text \<open>
  The claim as written fails in the first render: nothing is in range, no location is
  known, and the message is the no-location denial, which names no distance and contains
  no digit.
\<close>

theorem handleTimeIn_no_location_counterexample:
  "\<not> isWithinRange initialState
   \<and> snd (handleTimeIn (scenarioWorld 9 (StorageValue (Some ''token'')) (PostOk ''Time in recorded'') (Some []))
           initialState initialState)
      = [Toast ''Unable to get your current location'' ToastError]
   \<and> \<not> includesStr ''Unable to get your current location'' (showDistance (distance initialState))
   \<and> \<not> list_ex isDigit ''Unable to get your current location''"
  by (simp add: handleTimeIn_def initialState_def isDigit_def)



section \<open>Shapes of the handlers' outcomes\<close>

lemma authenticate_forced:
  "available bs \<Longrightarrow> enrolled bs \<Longrightarrow>
   authenticate plat bs prompt True =
     (let opts = \<lparr> promptMessage = prompt, fallbackLabel = '''', disableDeviceFallback = True \<rparr>
      in (plat opts = AuthResolved True, [AuthenticateAsync opts]))"
  by (auto simp: authenticate_def Let_def split: AuthResult.splits)

lemma authenticate_no_http: "filter isHttp (snd (authenticate plat bs prompt force)) = []"
  by (simp add: authenticate_def isHttp_def Let_def split: AuthResult.splits)

lemma fetchTimeRecords_no_post: "filter isPost (snd (fetchTimeRecords w cl st)) = []"
  by (simp add: fetchTimeRecords_def isPost_def Let_def split: StorageResult.splits option.splits)

lemma fetchTimeRecords_get:
  "userToken w = StorageValue (Some token) \<Longrightarrow> token \<noteq> [] \<Longrightarrow>
   HttpGet (API_URL w @ ''/api/time-records'') \<in> set (snd (fetchTimeRecords w cl st))"
  by (simp add: fetchTimeRecords_def truthy_def Let_def split: option.splits)

lemma handleTimeIn_shape:
  "(\<exists>t. handleTimeIn w cl st = (st, t) \<and> filter isHttp t = [])
   \<or> (\<exists>t. handleTimeIn w cl st = (st\<lparr>loading := False\<rparr>, t) \<and> filter isHttp t = [])
   \<or> (\<exists>t0 url body err. filter isHttp t0 = [] \<and> httpPost w url body = PostFailed err
        \<and> handleTimeIn w cl st
            = (st\<lparr>loading := False\<rparr>,
               t0 @ [HttpPost url body, Toast (orDefault err ''Failed to record time-in'') ToastError]))
   \<or> (\<exists>t0 url body m token. filter isHttp t0 = [] \<and> httpPost w url body = PostOk m
        \<and> userToken w = StorageValue (Some token) \<and> token \<noteq> []
        \<and> handleTimeIn w cl st
            = ((fst (fetchTimeRecords w cl (st\<lparr>loading := True\<rparr>)))\<lparr>loading := False\<rparr>,
               t0 @ [HttpPost url body, Toast m ToastSuccess]
                  @ snd (fetchTimeRecords w cl (st\<lparr>loading := True\<rparr>))))"
  using authenticate_no_http[of "authenticateAsync w" "biometricStatus cl" "''Authenticate to time in''" True]
  by (auto simp: handleTimeIn_def isHttp_def Let_def truthy_def case_prod_beta
        split: option.splits StorageResult.splits PostResult.splits)


lemma handleTimeOut_shape:
  "(\<exists>t. handleTimeOut w cl st = (st, t) \<and> filter isHttp t = [])
   \<or> (\<exists>t. handleTimeOut w cl st = (st\<lparr>loading := False\<rparr>, t) \<and> filter isHttp t = [])
   \<or> (\<exists>t0 url body err. filter isHttp t0 = [] \<and> httpPost w url body = PostFailed err
        \<and> handleTimeOut w cl st
            = (st\<lparr>loading := False\<rparr>,
               t0 @ [HttpPost url body, Toast (orDefault err ''Failed to record time-out'') ToastError]))
   \<or> (\<exists>t0 url body m token. filter isHttp t0 = [] \<and> httpPost w url body = PostOk m
        \<and> userToken w = StorageValue (Some token) \<and> token \<noteq> []
        \<and> handleTimeOut w cl st
            = ((fst (fetchTimeRecords w cl (st\<lparr>loading := True, activeTimeRecord := None\<rparr>)))\<lparr>loading := False\<rparr>,
               t0 @ [HttpPost url body, Toast m ToastSuccess]
                  @ snd (fetchTimeRecords w cl (st\<lparr>loading := True, activeTimeRecord := None\<rparr>))))"
  using authenticate_no_http[of "authenticateAsync w" "biometricStatus cl" "''Authenticate to time out''" True]
  by (auto simp: handleTimeOut_def isHttp_def Let_def truthy_def case_prod_beta
        split: option.splits StorageResult.splits PostResult.splits)

lemma no_http_no_post: "filter isHttp t = [] \<Longrightarrow> HttpPost u b \<notin> set t"
  by (auto simp: filter_empty_conv isHttp_def)

lemma no_http_no_get: "filter isHttp t = [] \<Longrightarrow> filter isGet t = []"
  by (auto simp: filter_empty_conv isHttp_def isGet_def split: event.splits)

lemma no_post_in_refresh: "HttpPost u b \<notin> set (snd (fetchTimeRecords w cl st))"
  using fetchTimeRecords_no_post[of w cl st] by (auto simp: filter_empty_conv isPost_def)

lemma orDefault_verbatim: "e \<noteq> [] \<Longrightarrow> orDefault (Some e) d = e"
  by (simp add: orDefault_def)

lemma sessionState_loading [simp]: "sessionState (st\<lparr>loading := b\<rparr>) = sessionState st"
  by (simp add: sessionState_def)

lemma submission_of_shape:
  assumes shape:
   "(\<exists>t. r = (st, t) \<and> filter isHttp t = [])
   \<or> (\<exists>t. r = (st\<lparr>loading := False\<rparr>, t) \<and> filter isHttp t = [])
   \<or> (\<exists>t0 url body err. filter isHttp t0 = [] \<and> httpPost w url body = PostFailed err
        \<and> r = (st\<lparr>loading := False\<rparr>,
               t0 @ [HttpPost url body, Toast (orDefault err dflt) ToastError]))
   \<or> (\<exists>t0 url body m token. filter isHttp t0 = [] \<and> httpPost w url body = PostOk m
        \<and> userToken w = StorageValue (Some token) \<and> token \<noteq> []
        \<and> r = ((fst (fetchTimeRecords w cl s1))\<lparr>loading := False\<rparr>,
               t0 @ [HttpPost url body, Toast m ToastSuccess] @ snd (fetchTimeRecords w cl s1)))"
  shows "(\<forall>url body err. HttpPost url body \<in> set (snd r) \<and> httpPost w url body = PostFailed err \<longrightarrow>
            sessionState (fst r) = sessionState st \<and> filter isGet (snd r) = []
            \<and> last (snd r) = Toast (orDefault err dflt) ToastError
            \<and> (\<forall>e. err = Some e \<and> e \<noteq> [] \<longrightarrow> last (snd r) = Toast e ToastError))
       \<and> (\<forall>url body m. HttpPost url body \<in> set (snd r) \<and> httpPost w url body = PostOk m \<longrightarrow>
            HttpGet (API_URL w @ ''/api/time-records'') \<in> set (snd r)
            \<and> fst r = (fst (fetchTimeRecords w cl s1))\<lparr>loading := False\<rparr>)
       \<and> (sessionState (fst r) \<noteq> sessionState st \<or> filter isGet (snd r) \<noteq> [] \<longrightarrow>
            (\<exists>url body m. HttpPost url body \<in> set (snd r) \<and> httpPost w url body = PostOk m))"
  using shape
  apply (elim disjE exE conjE)
     apply (auto simp: no_http_no_post no_http_no_get no_post_in_refresh orDefault_verbatim
                  isGet_def fetchTimeRecords_get)
  done


section \<open>Failed submissions\<close>

text \<open>
  C9. For \<open>handleTimeIn\<close> and for \<open>handleTimeOut\<close>: when the request that was sent is
  rejected, the session cells (\<open>timeRecords\<close>, \<open>activeTimeRecord\<close>, \<open>activeSession\<close>) are what
  they were, no refresh request is made, and the last message is the server's \<open>error\<close>
  field, verbatim whenever that field is a non-empty string, else the handler's default;
  when the request that was sent succeeds, the refresh request is made and the state is the
  one the refresh leaves; and the session cells change or a refresh request is made only if
  a request was sent and succeeded.
\<close>

theorem submission_failure_leaves_state:
  "(let r = handleTimeIn w cl st in
      (\<forall>url body err. HttpPost url body \<in> set (snd r) \<and> httpPost w url body = PostFailed err \<longrightarrow>
            sessionState (fst r) = sessionState st \<and> filter isGet (snd r) = []
            \<and> last (snd r) = Toast (orDefault err ''Failed to record time-in'') ToastError
            \<and> (\<forall>e. err = Some e \<and> e \<noteq> [] \<longrightarrow> last (snd r) = Toast e ToastError))
       \<and> (\<forall>url body m. HttpPost url body \<in> set (snd r) \<and> httpPost w url body = PostOk m \<longrightarrow>
            HttpGet (API_URL w @ ''/api/time-records'') \<in> set (snd r)
            \<and> fst r = (fst (fetchTimeRecords w cl (st\<lparr>loading := True\<rparr>)))\<lparr>loading := False\<rparr>)
       \<and> (sessionState (fst r) \<noteq> sessionState st \<or> filter isGet (snd r) \<noteq> [] \<longrightarrow>
            (\<exists>url body m. HttpPost url body \<in> set (snd r) \<and> httpPost w url body = PostOk m)))
   \<and> (let r = handleTimeOut w cl st in
      (\<forall>url body err. HttpPost url body \<in> set (snd r) \<and> httpPost w url body = PostFailed err \<longrightarrow>
            sessionState (fst r) = sessionState st \<and> filter isGet (snd r) = []
            \<and> last (snd r) = Toast (orDefault err ''Failed to record time-out'') ToastError
            \<and> (\<forall>e. err = Some e \<and> e \<noteq> [] \<longrightarrow> last (snd r) = Toast e ToastError))
       \<and> (\<forall>url body m. HttpPost url body \<in> set (snd r) \<and> httpPost w url body = PostOk m \<longrightarrow>
            HttpGet (API_URL w @ ''/api/time-records'') \<in> set (snd r)
            \<and> fst r = (fst (fetchTimeRecords w cl (st\<lparr>loading := True, activeTimeRecord := None\<rparr>)))\<lparr>loading := False\<rparr>)
       \<and> (sessionState (fst r) \<noteq> sessionState st \<or> filter isGet (snd r) \<noteq> [] \<longrightarrow>
            (\<exists>url body m. HttpPost url body \<in> set (snd r) \<and> httpPost w url body = PostOk m)))"
  unfolding Let_def
  by (rule conjI [OF submission_of_shape [OF handleTimeIn_shape]
                     submission_of_shape [OF handleTimeOut_shape]])



text \<open>
  The server rejects a time-in with an \<open>error\<close> field: the field is the message shown and the
  session cells are untouched.
\<close>

theorem submission_failure_leaves_state_witness:
  "HttpPost ''https://attendance.example/api/time-records/time-in''
       (TimeEventBody [120.5910, 18.2067] AM True)
     \<in> set (snd (handleTimeIn (scenarioWorld 9 (StorageValue (Some ''token''))
                      (PostFailed (Some ''Already timed in for this session'')) (Some [scenarioRecord]))
                   scenarioState scenarioState))
   \<and> sessionState (fst (handleTimeIn (scenarioWorld 9 (StorageValue (Some ''token''))
                      (PostFailed (Some ''Already timed in for this session'')) (Some [scenarioRecord]))
                   scenarioState scenarioState)) = sessionState scenarioState
   \<and> last (snd (handleTimeIn (scenarioWorld 9 (StorageValue (Some ''token''))
                      (PostFailed (Some ''Already timed in for this session'')) (Some [scenarioRecord]))
                   scenarioState scenarioState))
       = Toast ''Already timed in for this session'' ToastError"
proof -
  let ?w = "scenarioWorld 9 (StorageValue (Some ''token''))
              (PostFailed (Some ''Already timed in for this session'')) (Some [scenarioRecord])"
  let ?url = "''https://attendance.example/api/time-records/time-in''"
  let ?body = "TimeEventBody [120.5910, 18.2067] AM True"
  have sent: "HttpPost ?url ?body \<in> set (snd (handleTimeIn ?w scenarioState scenarioState))"
    by (simp add: handleTimeIn_def scenarioState_def initialState_def scenarioWorld_def
          scenarioLocation_def authenticate_def truthy_def)
  have failed: "httpPost ?w ?url ?body = PostFailed (Some ''Already timed in for this session'')"
    by (simp add: scenarioWorld_def)
  note t = submission_failure_leaves_state [of ?w scenarioState scenarioState, unfolded Let_def,
              THEN conjunct1, THEN conjunct1, rule_format, OF conjI [OF sent failed]]
  have kept: "sessionState (fst (handleTimeIn ?w scenarioState scenarioState)) = sessionState scenarioState"
    by (rule t [THEN conjunct1])
  have "last (snd (handleTimeIn ?w scenarioState scenarioState))
         = Toast (orDefault (Some ''Already timed in for this session'') ''Failed to record time-in'') ToastError"
    by (rule t [THEN conjunct2, THEN conjunct2, THEN conjunct1])
  then have msg: "last (snd (handleTimeIn ?w scenarioState scenarioState))
         = Toast ''Already timed in for this session'' ToastError"
    by (simp add: orDefault_def)
  show ?thesis by (rule conjI [OF sent conjI [OF kept msg]])
qed

section \<open>Time-out\<close>

text \<open>
  C4, as amended. For every call of \<open>handleTimeOut\<close>: a request is sent only if an active
  record exists, a current location is known, the user is within range, biometrics are
  available and enrolled, the platform resolved the prompt (sent with the device fallback
  disabled) with success, and a non-empty user token is stored; with no active record the
  outcome is the one denial \<open>No active time record found\<close>; and when all of these hold, the
  posts sent are exactly one, to the time-out URL of the active record's id, with the
  current coordinates in wire order and the active session.
\<close>

theorem handleTimeOut_gate:
  "(filter isHttp (snd (handleTimeOut w cl st)) \<noteq> [] \<longrightarrow>
      activeTimeRecord cl \<noteq> None \<and> currentLocation cl \<noteq> None \<and> isWithinRange cl
      \<and> available (biometricStatus cl) \<and> enrolled (biometricStatus cl)
      \<and> authenticateAsync w \<lparr> promptMessage = ''Authenticate to time out'', fallbackLabel = [],
                               disableDeviceFallback = True \<rparr> = AuthResolved True
      \<and> (\<exists>token. userToken w = StorageValue (Some token) \<and> token \<noteq> []))
   \<and> (activeTimeRecord cl = None \<longrightarrow>
        handleTimeOut w cl st = (st, [Toast ''No active time record found'' ToastError]))
   \<and> (\<forall>active loc token.
        activeTimeRecord cl = Some active \<and> currentLocation cl = Some loc \<and> isWithinRange cl
        \<and> available (biometricStatus cl) \<and> enrolled (biometricStatus cl)
        \<and> authenticateAsync w \<lparr> promptMessage = ''Authenticate to time out'', fallbackLabel = [],
                                 disableDeviceFallback = True \<rparr> = AuthResolved True
        \<and> userToken w = StorageValue (Some token) \<and> token \<noteq> []
        \<longrightarrow> filter isPost (snd (handleTimeOut w cl st))
              = [HttpPost (API_URL w @ ''/api/time-records/'' @ record_id active @ ''/time-out'')
                   (TimeEventBody [longitude loc, latitude loc] (activeSession cl) True)])"
proof -
  have one: "filter isHttp (snd (handleTimeOut w cl st)) \<noteq> [] \<Longrightarrow>
      activeTimeRecord cl \<noteq> None \<and> currentLocation cl \<noteq> None \<and> isWithinRange cl
      \<and> available (biometricStatus cl) \<and> enrolled (biometricStatus cl)
      \<and> authenticateAsync w \<lparr> promptMessage = ''Authenticate to time out'', fallbackLabel = [],
                               disableDeviceFallback = True \<rparr> = AuthResolved True
      \<and> (\<exists>token. userToken w = StorageValue (Some token) \<and> token \<noteq> [])"
    by (auto simp: handleTimeOut_def authenticate_def isHttp_def Let_def truthy_def
          split: option.splits if_splits AuthResult.splits StorageResult.splits)
  have two: "activeTimeRecord cl = None \<Longrightarrow>
      handleTimeOut w cl st = (st, [Toast ''No active time record found'' ToastError])"
    by (simp add: handleTimeOut_def)
  have three: "filter isPost (snd (handleTimeOut w cl st))
              = [HttpPost (API_URL w @ ''/api/time-records/'' @ record_id active @ ''/time-out'')
                   (TimeEventBody [longitude loc, latitude loc] (activeSession cl) True)]"
    if a: "activeTimeRecord cl = Some active \<and> currentLocation cl = Some loc \<and> isWithinRange cl
        \<and> available (biometricStatus cl) \<and> enrolled (biometricStatus cl)
        \<and> authenticateAsync w \<lparr> promptMessage = ''Authenticate to time out'', fallbackLabel = [],
                                 disableDeviceFallback = True \<rparr> = AuthResolved True
        \<and> userToken w = StorageValue (Some token) \<and> token \<noteq> []"
    for active loc token
    using a fetchTimeRecords_no_post
    by (simp add: handleTimeOut_def authenticate_forced isPost_def Let_def truthy_def
          case_prod_beta split: PostResult.splits)
  from one two three show ?thesis by blast
qed

text \<open>
  The scenario: in range, biometrics set up, the platform accepts, a token is stored. The
  one post goes to the record \<open>rec-1\<close>.
\<close>

theorem handleTimeOut_gate_witness:
  "activeTimeRecord (scenarioState\<lparr>activeTimeRecord := Some scenarioRecord\<rparr>) = Some scenarioRecord
   \<and> currentLocation (scenarioState\<lparr>activeTimeRecord := Some scenarioRecord\<rparr>) = Some scenarioLocation
   \<and> isWithinRange (scenarioState\<lparr>activeTimeRecord := Some scenarioRecord\<rparr>)
   \<and> filter isPost (snd (handleTimeOut
          (scenarioWorld 17 (StorageValue (Some ''token'')) (PostOk ''Time out recorded'') (Some [scenarioRecord]))
          (scenarioState\<lparr>activeTimeRecord := Some scenarioRecord\<rparr>) scenarioState))
      = [HttpPost ''https://attendance.example/api/time-records/rec-1/time-out''
           (TimeEventBody [120.5910, 18.2067] AM True)]"
proof -
  let ?w = "scenarioWorld 17 (StorageValue (Some ''token'')) (PostOk ''Time out recorded'') (Some [scenarioRecord])"
  let ?cl = "scenarioState\<lparr>activeTimeRecord := Some scenarioRecord\<rparr>"
  have pre: "activeTimeRecord ?cl = Some scenarioRecord \<and> currentLocation ?cl = Some scenarioLocation
        \<and> isWithinRange ?cl
        \<and> available (biometricStatus ?cl) \<and> enrolled (biometricStatus ?cl)
        \<and> authenticateAsync ?w \<lparr> promptMessage = ''Authenticate to time out'', fallbackLabel = [],
                                 disableDeviceFallback = True \<rparr> = AuthResolved True
        \<and> userToken ?w = StorageValue (Some ''token'') \<and> ''token'' \<noteq> []"
    by (simp add: scenarioState_def scenarioWorld_def)
  note t = handleTimeOut_gate [of ?w ?cl scenarioState, THEN conjunct2, THEN conjunct2, rule_format, OF pre]
  have "filter isPost (snd (handleTimeOut ?w ?cl scenarioState))
      = [HttpPost (API_URL ?w @ ''/api/time-records/'' @ record_id scenarioRecord @ ''/time-out'')
           (TimeEventBody [longitude scenarioLocation, latitude scenarioLocation] (activeSession ?cl) True)]"
    by (rule t)
  then have post: "filter isPost (snd (handleTimeOut ?w ?cl scenarioState))
      = [HttpPost ''https://attendance.example/api/time-records/rec-1/time-out''
           (TimeEventBody [120.5910, 18.2067] AM True)]"
    by (simp add: scenarioWorld_def scenarioRecord_def scenarioLocation_def scenarioState_def initialState_def)
  from pre post show ?thesis by simp
qed

text \<open>
  The claim as written fails when no user token is stored: every precondition it lists
  holds and authentication succeeds, and the handler redirects to the sign-in route without
  sending a request.
\<close>

theorem handleTimeOut_no_token_counterexample:
  "activeTimeRecord (scenarioState\<lparr>activeTimeRecord := Some scenarioRecord\<rparr>) \<noteq> None
   \<and> currentLocation (scenarioState\<lparr>activeTimeRecord := Some scenarioRecord\<rparr>) \<noteq> None
   \<and> isWithinRange (scenarioState\<lparr>activeTimeRecord := Some scenarioRecord\<rparr>)
   \<and> available (biometricStatus (scenarioState\<lparr>activeTimeRecord := Some scenarioRecord\<rparr>))
   \<and> enrolled (biometricStatus (scenarioState\<lparr>activeTimeRecord := Some scenarioRecord\<rparr>))
   \<and> fst (authenticate
            (authenticateAsync (scenarioWorld 17 (StorageValue None) (PostOk ''Time out recorded'') (Some [scenarioRecord])))
            (biometricStatus (scenarioState\<lparr>activeTimeRecord := Some scenarioRecord\<rparr>))
            ''Authenticate to time out'' True)
   \<and> snd (handleTimeOut
          (scenarioWorld 17 (StorageValue None) (PostOk ''Time out recorded'') (Some [scenarioRecord]))
          (scenarioState\<lparr>activeTimeRecord := Some scenarioRecord\<rparr>) scenarioState)
      = [Authenticate ''Authenticate to time out'' True,
         AuthenticateAsync \<lparr> promptMessage = ''Authenticate to time out'', fallbackLabel = [],
                              disableDeviceFallback = True \<rparr>,
         RouterReplace ''/'']"
  by (simp add: handleTimeOut_def authenticate_def scenarioState_def initialState_def
        scenarioWorld_def truthy_def)

section \<open>Session resolution\<close>





text \<open>
  With a date that does not parse the order is the engine's: on the scenarios' engine the
  record without a date goes last and the oldest record comes before it.
\<close>

lemma sortRecords_unparsable:
  "map record_id (sortRecords (scenarioWorld 9 tok posted rs)
     [scenarioRecord\<lparr>record_id := ''r0'', date := ''2000-01-01''\<rparr>,
      scenarioRecord\<lparr>record_id := ''r1''\<rparr>,
      scenarioRecord\<lparr>record_id := ''r2'', date := ''soon''\<rparr>,
      scenarioRecord\<lparr>record_id := ''r3''\<rparr>]) = [''r1'', ''r3'', ''r0'', ''r2'']"
  by (simp add: sortRecords_def scenarioWorld_def scenarioRecord_def engineSort_def
        compareRecords_def binaryInsertion_def binarySearch.simps [of _ _ "_ # _"]
        binarySearch.simps [of _ _ "[]"] Let_def)






section \<open>Offset validation\<close>

lemma find_None_list_ex: "(find P xs = None) = (\<not> list_ex P xs)"
  by (induction xs) auto

lemma offset_no_record:
  "selectedRecord cl = None \<Longrightarrow>
   handleOffsetSubmit w cl st = (st, [Toast ''No record selected'' ToastError])"
  by (simp add: handleOffsetSubmit_def)

lemma offset_bad_format:
  "selectedRecord cl \<noteq> None \<Longrightarrow> makeupDate cl \<noteq> [] \<Longrightarrow> \<not> matchesDateFormat (makeupDate cl) \<Longrightarrow>
   handleOffsetSubmit w cl st = (st, [Toast ''Makeup date must be in YYYY-MM-DD format'' ToastError])"
  by (auto simp add: handleOffsetSubmit_def)

lemma offset_unknown_date:
  "selectedRecord cl \<noteq> None \<Longrightarrow> makeupDate cl = [] \<or> matchesDateFormat (makeupDate cl) \<Longrightarrow>
   undertimeDate cl \<notin> set (availableDates cl) \<Longrightarrow>
   handleOffsetSubmit w cl st = (st, [Toast ''Undertime date must exist in daily records'' ToastError])"
  by (auto simp add: handleOffsetSubmit_def)

lemma offset_not_found:
  "selectedRecord cl \<noteq> None \<Longrightarrow> makeupDate cl = [] \<or> matchesDateFormat (makeupDate cl) \<Longrightarrow>
   undertimeDate cl \<in> set (availableDates cl) \<Longrightarrow>
   find (\<lambda>r. formatRecordDate w (date r) = undertimeDate cl) (timeRecords cl) = None \<Longrightarrow>
   handleOffsetSubmit w cl st = (st, [Toast ''Could not find the selected undertime date record'' ToastError])"
  by (auto simp add: handleOffsetSubmit_def)

lemma offset_past_makeup:
  "selectedRecord cl \<noteq> None \<Longrightarrow> makeupDate cl = [] \<or> matchesDateFormat (makeupDate cl) \<Longrightarrow>
   undertimeDate cl \<in> set (availableDates cl) \<Longrightarrow>
   find (\<lambda>r. formatRecordDate w (date r) = undertimeDate cl) (timeRecords cl) = Some u \<Longrightarrow>
   makeupDate cl \<noteq> [] \<Longrightarrow> beforeToday w (makeupDate cl) \<Longrightarrow>
   handleOffsetSubmit w cl st = (st, [Toast ''Makeup date must be today or a future date'' ToastError])"
  by (auto simp add: handleOffsetSubmit_def)

lemma offset_submitted:
  "selectedRecord cl \<noteq> None \<Longrightarrow> makeupDate cl = [] \<or> matchesDateFormat (makeupDate cl) \<Longrightarrow>
   undertimeDate cl \<in> set (availableDates cl) \<Longrightarrow>
   find (\<lambda>r. formatRecordDate w (date r) = undertimeDate cl) (timeRecords cl) = Some u \<Longrightarrow>
   makeupDate cl = [] \<or> \<not> beforeToday w (makeupDate cl) \<Longrightarrow>
   userToken w = StorageValue (Some token) \<Longrightarrow> token \<noteq> [] \<Longrightarrow>
   filter isPost (snd (handleOffsetSubmit w cl st))
     = [HttpPost (API_URL w @ ''/api/time-records/'' @ record_id u @ ''/offset'')
          (OffsetBody (undertimeDate cl) (undertime cl) (makeup cl)
             (if makeupDate cl = [] then None else Some (makeupDate cl)))]"
  by (auto simp add: handleOffsetSubmit_def Let_def truthy_def isPost_def case_prod_beta
        fetchTimeRecords_no_post split: PostResult.splits)


lemma firstFailure_offsetRules:
  "firstFailure (offsetRules w cl) =
    (if selectedRecord cl = None then Some ''No record selected''
     else if makeupDate cl \<noteq> [] \<and> \<not> matchesDateFormat (makeupDate cl)
       then Some ''Makeup date must be in YYYY-MM-DD format''
     else if undertimeDate cl \<notin> set (availableDates cl)
       then Some ''Undertime date must exist in daily records''
     else if \<not> list_ex (\<lambda>r. formatRecordDate w (date r) = undertimeDate cl) (timeRecords cl)
       then Some ''Could not find the selected undertime date record''
     else if makeupDate cl \<noteq> [] \<and> beforeToday w (makeupDate cl)
       then Some ''Makeup date must be today or a future date''
     else None)"
  by (auto simp add: firstFailure_def offsetRules_def)

text \<open>
  C3, as amended. \<open>handleOffsetSubmit\<close> validates in this order and stops at the first
  rule that fails, showing that rule's message and sending nothing: a record is selected;
  the makeup date, when given, has the form of four digits, two digits, two digits; the
  undertime date is among the available record dates; a record with that date is found;
  the makeup date, when given, is not before today's local midnight. When no rule fails
  and a token is stored, exactly one post is sent, keyed by the id of the record of the
  undertime date, carrying the hours as they are (the handler does not test the
  hours). With no makeup date both makeup rules are passed over.
\<close>

theorem handleOffsetSubmit_validation:
  "(\<forall>msg. firstFailure (offsetRules w cl) = Some msg \<longrightarrow>
        handleOffsetSubmit w cl st = (st, [Toast msg ToastError]))
   \<and> (firstFailure (offsetRules w cl) = None \<longrightarrow>
        (\<exists>undertimeRecord.
            find (\<lambda>r. formatRecordDate w (date r) = undertimeDate cl) (timeRecords cl)
              = Some undertimeRecord
          \<and> (\<forall>token. userToken w = StorageValue (Some token) \<and> token \<noteq> [] \<longrightarrow>
                filter isPost (snd (handleOffsetSubmit w cl st))
                  = [HttpPost (API_URL w @ ''/api/time-records/'' @ record_id undertimeRecord @ ''/offset'')
                       (OffsetBody (undertimeDate cl) (undertime cl) (makeup cl)
                          (if makeupDate cl = [] then None else Some (makeupDate cl)))])))
   \<and> (makeupDate cl = [] \<and> selectedRecord cl \<noteq> None
        \<and> undertimeDate cl \<in> set (availableDates cl)
        \<and> list_ex (\<lambda>r. formatRecordDate w (date r) = undertimeDate cl) (timeRecords cl)
        \<longrightarrow> firstFailure (offsetRules w cl) = None)"
proof -
  let ?P = "\<lambda>r. formatRecordDate w (date r) = undertimeDate cl"
  have denied: "handleOffsetSubmit w cl st = (st, [Toast msg ToastError])"
    if ff: "firstFailure (offsetRules w cl) = Some msg" for msg
  proof (cases "selectedRecord cl = None")
    case True
    with ff show ?thesis by (simp add: firstFailure_offsetRules offset_no_record)
  next
    case sel: False
    show ?thesis
    proof (cases "makeupDate cl \<noteq> [] \<and> \<not> matchesDateFormat (makeupDate cl)")
      case True
      with ff sel show ?thesis by (simp add: firstFailure_offsetRules offset_bad_format)
    next
      case fmt: False
      then have fmt': "makeupDate cl = [] \<or> matchesDateFormat (makeupDate cl)" by blast
      show ?thesis
      proof (cases "undertimeDate cl \<in> set (availableDates cl)")
        case False
        with ff sel fmt show ?thesis
          using offset_unknown_date [OF sel fmt' False, of w st]
          by (simp add: firstFailure_offsetRules)
      next
        case ex: True
        show ?thesis
        proof (cases "find ?P (timeRecords cl)")
          case None
          then have "\<not> list_ex ?P (timeRecords cl)" by (simp add: find_None_list_ex)
          with ff sel fmt ex show ?thesis
            using offset_not_found [OF sel fmt' ex None, of st]
            by (simp add: firstFailure_offsetRules)
        next
          case (Some u)
          then have le: "list_ex ?P (timeRecords cl)"
            using find_None_list_ex [of ?P "timeRecords cl"] by simp
          show ?thesis
          proof (cases "makeupDate cl \<noteq> [] \<and> beforeToday w (makeupDate cl)")
            case True
            with ff sel fmt ex le show ?thesis
              using offset_past_makeup [OF sel fmt' ex Some, of st]
              by (simp add: firstFailure_offsetRules)
          next
            case False
            with ff sel fmt ex le show ?thesis by (simp add: firstFailure_offsetRules)
          qed
        qed
      qed
    qed
  qed
  have admitted: "\<exists>undertimeRecord.
            find ?P (timeRecords cl) = Some undertimeRecord
          \<and> (\<forall>token. userToken w = StorageValue (Some token) \<and> token \<noteq> [] \<longrightarrow>
                filter isPost (snd (handleOffsetSubmit w cl st))
                  = [HttpPost (API_URL w @ ''/api/time-records/'' @ record_id undertimeRecord @ ''/offset'')
                       (OffsetBody (undertimeDate cl) (undertime cl) (makeup cl)
                          (if makeupDate cl = [] then None else Some (makeupDate cl)))])"
    if none: "firstFailure (offsetRules w cl) = None"
  proof -
    from none have sel: "selectedRecord cl \<noteq> None"
      by (simp add: firstFailure_offsetRules split: if_splits)
    from none have fmt: "makeupDate cl = [] \<or> matchesDateFormat (makeupDate cl)"
      by (simp add: firstFailure_offsetRules split: if_splits)
    from none have ex: "undertimeDate cl \<in> set (availableDates cl)"
      by (simp add: firstFailure_offsetRules split: if_splits)
    from none have found: "list_ex ?P (timeRecords cl)"
      by (simp add: firstFailure_offsetRules split: if_splits)
    from none have fut: "makeupDate cl = [] \<or> \<not> beforeToday w (makeupDate cl)"
      by (simp add: firstFailure_offsetRules split: if_splits)
    from found obtain u where u: "find ?P (timeRecords cl) = Some u"
      using find_None_list_ex [of ?P "timeRecords cl"]
      by (cases "find ?P (timeRecords cl)") auto
    have "filter isPost (snd (handleOffsetSubmit w cl st))
                  = [HttpPost (API_URL w @ ''/api/time-records/'' @ record_id u @ ''/offset'')
                       (OffsetBody (undertimeDate cl) (undertime cl) (makeup cl)
                          (if makeupDate cl = [] then None else Some (makeupDate cl)))]"
      if "userToken w = StorageValue (Some token) \<and> token \<noteq> []" for token
      using offset_submitted [OF sel fmt ex u fut, of token st] that by blast
    with u show ?thesis by blast
  qed
  have skip: "firstFailure (offsetRules w cl) = None"
    if "makeupDate cl = [] \<and> selectedRecord cl \<noteq> None
        \<and> undertimeDate cl \<in> set (availableDates cl)
        \<and> list_ex ?P (timeRecords cl)"
    using that by (simp add: firstFailure_offsetRules)
  from denied admitted skip show ?thesis by blast
qed



lemma scenario_format:
  "formatRecordDate (scenarioWorld h tok posted rs) ''2025-01-15'' = ''2025-01-15''"
  by (simp add: formatRecordDate_def scenarioWorld_def showInt_def showNat.simps digitChar_def padStart2_def)

lemma scenario_matches: "matchesDateFormat ''2000-01-01''"
  by (simp add: matchesDateFormat_def isDigit_def)

lemma scenario_past: "beforeToday (scenarioWorld 9 tok posted rs) ''2000-01-01''"
  by (simp add: beforeToday_def scenarioWorld_def)

lemma scenario_rules_past:
  "firstFailure (offsetRules (scenarioWorld 9 tok posted rs) (scenarioOffsetForm ''2000-01-01''))
     = Some ''Makeup date must be today or a future date''"
  by (simp add: firstFailure_offsetRules scenarioOffsetForm_def scenario_matches scenario_past
        scenario_format scenarioRecord_def)

lemma scenario_rules_none:
  "firstFailure (offsetRules (scenarioWorld 9 tok posted rs) (scenarioOffsetForm [])) = None"
  by (simp add: firstFailure_offsetRules scenarioOffsetForm_def scenario_format scenarioRecord_def)

lemma scenario_find:
  "find (\<lambda>r. formatRecordDate (scenarioWorld 9 tok posted rs) (date r) = undertimeDate (scenarioOffsetForm []))
        (timeRecords (scenarioOffsetForm [])) = Some scenarioRecord"
  by (simp add: scenarioOffsetForm_def scenario_format scenarioRecord_def)

text \<open>
  Two scenarios of the specification: a makeup date in the past is refused with its own
  message; no makeup date is submitted against record \<open>rec-1\<close>.
\<close>

theorem handleOffsetSubmit_validation_witness:
  "handleOffsetSubmit (scenarioWorld 9 (StorageValue (Some ''token'')) (PostOk ''Offset saved'') (Some [scenarioRecord]))
       (scenarioOffsetForm ''2000-01-01'') scenarioState
     = (scenarioState, [Toast ''Makeup date must be today or a future date'' ToastError])
   \<and> filter isPost (snd (handleOffsetSubmit
         (scenarioWorld 9 (StorageValue (Some ''token'')) (PostOk ''Offset saved'') (Some [scenarioRecord]))
         (scenarioOffsetForm []) scenarioState))
     = [HttpPost ''https://attendance.example/api/time-records/rec-1/offset''
          (OffsetBody ''2025-01-15'' 2 1 None)]"
proof -
  let ?w = "scenarioWorld 9 (StorageValue (Some ''token'')) (PostOk ''Offset saved'') (Some [scenarioRecord])"
  note t1 = handleOffsetSubmit_validation [of ?w "scenarioOffsetForm ''2000-01-01''" scenarioState,
              THEN conjunct1, rule_format, OF scenario_rules_past]
  note t2 = handleOffsetSubmit_validation [of ?w "scenarioOffsetForm []" scenarioState,
              THEN conjunct2, THEN conjunct1, rule_format, OF scenario_rules_none]
  from t2 obtain u where
    u: "find (\<lambda>r. formatRecordDate ?w (date r) = undertimeDate (scenarioOffsetForm []))
          (timeRecords (scenarioOffsetForm [])) = Some u"
    and p: "\<forall>token. userToken ?w = StorageValue (Some token) \<and> token \<noteq> [] \<longrightarrow>
             filter isPost (snd (handleOffsetSubmit ?w (scenarioOffsetForm []) scenarioState))
               = [HttpPost (API_URL ?w @ ''/api/time-records/'' @ record_id u @ ''/offset'')
                    (OffsetBody (undertimeDate (scenarioOffsetForm [])) (undertime (scenarioOffsetForm []))
                       (makeup (scenarioOffsetForm []))
                       (if makeupDate (scenarioOffsetForm []) = [] then None
                        else Some (makeupDate (scenarioOffsetForm []))))]"
    by blast
  from u have ueq: "u = scenarioRecord" by (simp add: scenario_find)
  have tok: "userToken ?w = StorageValue (Some ''token'') \<and> ''token'' \<noteq> []"
    by (simp add: scenarioWorld_def)
  from p [rule_format, OF tok] ueq
  have post: "filter isPost (snd (handleOffsetSubmit ?w (scenarioOffsetForm []) scenarioState))
     = [HttpPost ''https://attendance.example/api/time-records/rec-1/offset''
          (OffsetBody ''2025-01-15'' 2 1 None)]"
    by (simp add: scenarioWorld_def scenarioRecord_def scenarioOffsetForm_def)
  show ?thesis by (rule conjI [OF t1 post])
qed

text \<open>
  The claim as written fails twice. With an undertime date that no record has and a makeup
  date of the wrong form, the message shown is the one of the format rule, which the
  handler tests first. With nine undertime hours and everything else valid the offset is
  posted.
\<close>

theorem handleOffsetSubmit_order_counterexample:
  "undertimeDate ((scenarioOffsetForm ''tomorrow'')\<lparr>undertimeDate := ''2099-01-01''\<rparr>)
      \<notin> set (availableDates ((scenarioOffsetForm ''tomorrow'')\<lparr>undertimeDate := ''2099-01-01''\<rparr>))
   \<and> handleOffsetSubmit (scenarioWorld 9 (StorageValue (Some ''token'')) (PostOk ''Offset saved'') (Some [scenarioRecord]))
        ((scenarioOffsetForm ''tomorrow'')\<lparr>undertimeDate := ''2099-01-01''\<rparr>) scenarioState
      = (scenarioState, [Toast ''Makeup date must be in YYYY-MM-DD format'' ToastError])
   \<and> \<not> undertime ((scenarioOffsetForm [])\<lparr>undertime := 9\<rparr>) \<le> 8
   \<and> filter isPost (snd (handleOffsetSubmit
         (scenarioWorld 9 (StorageValue (Some ''token'')) (PostOk ''Offset saved'') (Some [scenarioRecord]))
         ((scenarioOffsetForm [])\<lparr>undertime := 9\<rparr>) scenarioState))
      = [HttpPost ''https://attendance.example/api/time-records/rec-1/offset''
          (OffsetBody ''2025-01-15'' 9 1 None)]"
proof -
  let ?w = "scenarioWorld 9 (StorageValue (Some ''token'')) (PostOk ''Offset saved'') (Some [scenarioRecord])"
  have a: "undertimeDate ((scenarioOffsetForm ''tomorrow'')\<lparr>undertimeDate := ''2099-01-01''\<rparr>)
      \<notin> set (availableDates ((scenarioOffsetForm ''tomorrow'')\<lparr>undertimeDate := ''2099-01-01''\<rparr>))"
    by (simp add: scenarioOffsetForm_def)
  have b: "handleOffsetSubmit ?w
        ((scenarioOffsetForm ''tomorrow'')\<lparr>undertimeDate := ''2099-01-01''\<rparr>) scenarioState
      = (scenarioState, [Toast ''Makeup date must be in YYYY-MM-DD format'' ToastError])"
    by (rule offset_bad_format) (simp_all add: scenarioOffsetForm_def matchesDateFormat_def)
  have c: "\<not> undertime ((scenarioOffsetForm [])\<lparr>undertime := 9\<rparr>) \<le> 8" by simp
  have d: "filter isPost (snd (handleOffsetSubmit ?w ((scenarioOffsetForm [])\<lparr>undertime := 9\<rparr>) scenarioState))
      = [HttpPost (API_URL ?w @ ''/api/time-records/'' @ record_id scenarioRecord @ ''/offset'')
          (OffsetBody (undertimeDate ((scenarioOffsetForm [])\<lparr>undertime := 9\<rparr>))
             (undertime ((scenarioOffsetForm [])\<lparr>undertime := 9\<rparr>))
             (makeup ((scenarioOffsetForm [])\<lparr>undertime := 9\<rparr>))
             (if makeupDate ((scenarioOffsetForm [])\<lparr>undertime := 9\<rparr>) = [] then None
              else Some (makeupDate ((scenarioOffsetForm [])\<lparr>undertime := 9\<rparr>))))]"
  proof (rule offset_submitted [where token = "''token''"])
    show "find (\<lambda>r. formatRecordDate ?w (date r)
                    = undertimeDate ((scenarioOffsetForm [])\<lparr>undertime := 9\<rparr>))
            (timeRecords ((scenarioOffsetForm [])\<lparr>undertime := 9\<rparr>)) = Some scenarioRecord"
      by (simp add: scenarioOffsetForm_def scenario_format scenarioRecord_def)
    show "userToken ?w = StorageValue (Some ''token'')" by (simp add: scenarioWorld_def)
  qed (simp_all add: scenarioOffsetForm_def)
  from d have d': "filter isPost (snd (handleOffsetSubmit ?w ((scenarioOffsetForm [])\<lparr>undertime := 9\<rparr>) scenarioState))
      = [HttpPost ''https://attendance.example/api/time-records/rec-1/offset''
          (OffsetBody ''2025-01-15'' 9 1 None)]"
    by (simp add: scenarioWorld_def scenarioRecord_def scenarioOffsetForm_def)
  show ?thesis by (rule conjI [OF a conjI [OF b conjI [OF c d']]])
qed




section \<open>Geofence distance\<close>

text \<open>
  The distance of the scenarios, evaluated operation by operation on the scenario engine.
  The tables are searched for the operands as they are, entry by entry.
\<close>

lemma scenarioWorld_engine:
  "numAdd (scenarioWorld h tok posted rs) = tableOp scenarioSums"
  "numSub (scenarioWorld h tok posted rs) = tableOp scenarioDifferences"
  "numMul (scenarioWorld h tok posted rs) = tableOp scenarioProducts"
  "numDiv (scenarioWorld h tok posted rs) = tableOp scenarioQuotients"
  "mathSin (scenarioWorld h tok posted rs) = tableFun scenarioSines"
  "mathCos (scenarioWorld h tok posted rs) = tableFun scenarioCosines"
  "mathSqrt (scenarioWorld h tok posted rs) = scenarioSqrt"
  "mathAtan2 (scenarioWorld h tok posted rs) = scenarioAtan2"
  by (simp_all add: scenarioWorld_def)

lemma map_of_Cons_apply: "map_of ((a, b) # ps) k = (if k = a then Some b else map_of ps k)"
  by simp

lemma map_of_Nil_apply: "map_of [] k = None"
  by simp

lemma map_of_key_cong: "k = k' \<Longrightarrow> map_of t k = map_of t k'"
  by simp

lemmas scenarioEngine_defs =
  roundedHaversine_def scenarioWorld_engine mathPI_def scenarioSqrt_def scenarioAtan2_def
  tableOp_def tableFun_def scenarioProducts_def scenarioQuotients_def
  scenarioDifferences_def scenarioSums_def scenarioSines_def scenarioCosines_def
  scenarioRoots_def scenarioArcTangents_def

lemma scenario_distance_100:
  "roundedHaversine (scenarioWorld h tok posted rs) 18.2067 120.5910 18.2058 120.5910 = Meters 100"
  unfolding scenarioEngine_defs
  by (simp add: Let_def map_of_Cons_apply map_of_Nil_apply del: map_of.simps cong: map_of_key_cong)

lemma scenario_distance_101:
  "roundedHaversine (scenarioWorld h tok posted rs) 18.20671 120.5910 18.2058 120.5910 = Meters 101"
  unfolding scenarioEngine_defs
  by (simp add: Let_def map_of_Cons_apply map_of_Nil_apply del: map_of.simps cong: map_of_key_cong)

lemma scenario_distance_0:
  "roundedHaversine (scenarioWorld h tok posted rs) 18.2058 120.5910 18.2058 120.5910 = Meters 0"
  unfolding scenarioEngine_defs
  by (simp add: Let_def map_of_Cons_apply map_of_Nil_apply del: map_of.simps cong: map_of_key_cong)

lemma scenario_distance_300:
  "roundedHaversine (scenarioWorld h tok posted rs) 18.2085 120.5910 18.2058 120.5910 = Meters 300"
  unfolding scenarioEngine_defs
  by (simp add: Let_def map_of_Cons_apply map_of_Nil_apply del: map_of.simps cong: map_of_key_cong)

lemma scenario_distance_default:
  "roundedHaversine (scenarioWorld h tok posted rs) 18.2085 120.5910
     18.20585558594641 120.59097690306716 = Meters 294"
  unfolding scenarioEngine_defs
  by (simp add: Let_def map_of_Cons_apply map_of_Nil_apply del: map_of.simps cong: map_of_key_cong)

lemma scenario_distance_antipodal:
  "roundedHaversine (scenarioWorld h tok posted rs) 8 0 (- 8) 180 = NaN"
  unfolding scenarioEngine_defs
  by (simp add: Let_def map_of_Cons_apply map_of_Nil_apply del: map_of.simps cong: map_of_key_cong)

lemma roundedHaversine_position:
  "roundedHaversine (w\<lparr>highAccuracyPosition := p\<rparr>) userLat userLong officeLat officeLong
     = roundedHaversine w userLat userLong officeLat officeLong"
  by (simp add: roundedHaversine_def)

text \<open>
  C5. The distance that \<open>checkOfficeRange\<close> computes is the haversine formula in double
  arithmetic, and on finite coordinates the formula's \<open>a\<close> can exceed 1 by a rounding
  error. For the user at 8 degrees north on the prime meridian and the office at 8 degrees
  south on the 180th meridian, \<open>a\<close> is \<open>1.0000000000000002\<close>, \<open>1 - a\<close> is negative, its
  square root is \<open>NaN\<close>, and so is the distance: the cell \<open>distance\<close> holds \<open>NaN\<close>, not the
  20015 km between the two points, and \<open>isWithinRange\<close> is false. Nothing is raised.
\<close>

theorem checkOfficeRange_antipodal:
  "checkOfficeRange (scenarioWorld 9 (StorageValue (Some ''token'')) (PostOk ''ok'') (Some []))
       (scenarioState\<lparr>officeLocation := Some antipodalOffice\<rparr>) (Some antipodalLocation) scenarioState
     = scenarioState\<lparr>distance := Some NaN, isWithinRange := False\<rparr>
   \<and> mathSqrt (scenarioWorld 9 (StorageValue (Some ''token'')) (PostOk ''ok'') (Some []))
        (numSub (scenarioWorld 9 (StorageValue (Some ''token'')) (PostOk ''ok'') (Some []))
           (Finite 1) (Finite (4503599627370497 / 4503599627370496))) = NotANumber"
proof -
  have a: "checkOfficeRange (scenarioWorld 9 (StorageValue (Some ''token'')) (PostOk ''ok'') (Some []))
       (scenarioState\<lparr>officeLocation := Some antipodalOffice\<rparr>) (Some antipodalLocation) scenarioState
     = scenarioState\<lparr>distance := Some NaN, isWithinRange := False\<rparr>"
    by (simp add: checkOfficeRange_def antipodalOffice_def antipodalLocation_def
          scenario_distance_antipodal)
  have b: "mathSqrt (scenarioWorld 9 (StorageValue (Some ''token'')) (PostOk ''ok'') (Some []))
        (numSub (scenarioWorld 9 (StorageValue (Some ''token'')) (PostOk ''ok'') (Some []))
           (Finite 1) (Finite (4503599627370497 / 4503599627370496))) = NotANumber"
    unfolding scenarioWorld_engine tableOp_def scenarioSqrt_def scenarioDifferences_def
    by (simp add: map_of_Cons_apply map_of_Nil_apply del: map_of.simps cong: map_of_key_cong)
  show ?thesis by (rule conjI [OF a b])
qed

section \<open>Geofence state\<close>

lemma check_cases:
  "checkOfficeRange w cl location s = s
   \<or> (\<exists>office meters. officeLocation cl = Some office \<and> location \<noteq> None
         \<and> checkOfficeRange w cl location s
             = s\<lparr>distance := Some meters, isWithinRange := lessEq meters (radius office)\<rparr>)"
proof (cases "officeLocation cl")
  case None
  then show ?thesis by (simp add: checkOfficeRange_def)
next
  case (Some office)
  show ?thesis
  proof (cases location)
    case None
    with Some show ?thesis by (simp add: checkOfficeRange_def)
  next
    case (Some loc)
    define meters where "meters = (case coordinates office of
                          officeLong # officeLat # rest \<Rightarrow>
                            roundedHaversine w (latitude loc) (longitude loc) officeLat officeLong
                        | _ \<Rightarrow> NaN)"
    have "checkOfficeRange w cl location s
             = s\<lparr>distance := Some meters, isWithinRange := lessEq meters (radius office)\<rparr>"
      using \<open>officeLocation cl = Some office\<close> Some
      by (simp add: checkOfficeRange_def Let_def meters_def)
    with \<open>officeLocation cl = Some office\<close> Some show ?thesis by blast
  qed
qed

lemma geofenceInv_step:
  assumes inv: "geofenceInv (st # past)"
      and step: "isWithinRange st' \<Longrightarrow>
                  currentLocation st' \<noteq> None
                  \<and> ((isWithinRange st \<and> distance st' = distance st)
                      \<or> (\<exists>p\<in>set (st # past). \<exists>office meters. officeLocation p = Some office
                            \<and> distance st' = Some meters \<and> lessEq meters (radius office)))"
  shows "geofenceInv (st' # st # past)"
proof (cases "isWithinRange st'")
  case False
  then show ?thesis by (simp add: geofenceInv_def)
next
  case True
  from step [OF True] have loc: "currentLocation st' \<noteq> None"
    and alt: "(isWithinRange st \<and> distance st' = distance st)
                \<or> (\<exists>p\<in>set (st # past). \<exists>office meters. officeLocation p = Some office
                            \<and> distance st' = Some meters \<and> lessEq meters (radius office))"
    by simp_all
  have "\<exists>p\<in>set (st # past). \<exists>office meters. officeLocation p = Some office
                            \<and> distance st' = Some meters \<and> lessEq meters (radius office)"
  proof (rule disjE [OF alt])
    assume a: "isWithinRange st \<and> distance st' = distance st"
    with inv have "list_ex (\<lambda>p. case officeLocation p of None \<Rightarrow> False
                          | Some office \<Rightarrow> (case distance st of None \<Rightarrow> False
                               | Some meters \<Rightarrow> lessEq meters (radius office))) (st # past)"
      by (simp add: geofenceInv_def)
    then obtain p where p: "p \<in> set (st # past)"
      and c: "case officeLocation p of None \<Rightarrow> False
              | Some office \<Rightarrow> (case distance st of None \<Rightarrow> False
                                | Some meters \<Rightarrow> lessEq meters (radius office))"
      unfolding list_ex_iff by blast
    from c obtain office meters where "officeLocation p = Some office"
      "distance st = Some meters" "lessEq meters (radius office)"
      by (auto split: option.splits)
    with p a show ?thesis by auto
  qed
  then obtain p office meters where p: "p \<in> set (st # past)" and o: "officeLocation p = Some office"
    and d: "distance st' = Some meters" and le: "lessEq meters (radius office)" by blast
  from o d le have "case officeLocation p of None \<Rightarrow> False
              | Some office \<Rightarrow> (case distance st' of None \<Rightarrow> False
                                | Some meters \<Rightarrow> lessEq meters (radius office))"
    by simp
  with p have "list_ex (\<lambda>p. case officeLocation p of None \<Rightarrow> False
                          | Some office \<Rightarrow> (case distance st' of None \<Rightarrow> False
                               | Some meters \<Rightarrow> lessEq meters (radius office))) (st' # st # past)"
    unfolding list_ex_iff by (intro bexI [of _ p]) simp_all
  with True loc show ?thesis by (simp add: geofenceInv_def)
qed

lemma inv_check:
  assumes inv: "geofenceInv (st # past)" and cl: "closureOf (st # past) cl"
      and cells: "isWithinRange s = isWithinRange st" "distance s = distance st"
      and loc: "currentLocation s \<noteq> None"
  shows "geofenceInv (checkOfficeRange w cl location s # st # past)"
proof (rule geofenceInv_step [OF inv])
  assume within: "isWithinRange (checkOfficeRange w cl location s)"
  from check_cases [of w cl location s]
  show "currentLocation (checkOfficeRange w cl location s) \<noteq> None
        \<and> ((isWithinRange st \<and> distance (checkOfficeRange w cl location s) = distance st)
            \<or> (\<exists>p\<in>set (st # past). \<exists>office meters. officeLocation p = Some office
                  \<and> distance (checkOfficeRange w cl location s) = Some meters
                  \<and> lessEq meters (radius office)))"
  proof
    assume same: "checkOfficeRange w cl location s = s"
    with within cells loc show ?thesis by simp
  next
    assume "\<exists>office meters. officeLocation cl = Some office \<and> location \<noteq> None
         \<and> checkOfficeRange w cl location s
             = s\<lparr>distance := Some meters, isWithinRange := lessEq meters (radius office)\<rparr>"
    then obtain office meters where o: "officeLocation cl = Some office"
      and eq: "checkOfficeRange w cl location s
             = s\<lparr>distance := Some meters, isWithinRange := lessEq meters (radius office)\<rparr>"
      by blast
    from cl obtain p where p: "p \<in> set (st # past)" and po: "officeLocation cl = officeLocation p"
      unfolding closureOf_def list_ex_iff by blast
    from within eq have le: "lessEq meters (radius office)" by simp
    from p po o le eq loc show ?thesis by auto
  qed
qed

lemma inv_located:
  assumes inv: "geofenceInv (st # past)" and cl: "closureOf (st # past) cl"
  shows "geofenceInv (fst (getCurrentLocation w cl st) # st # past)"
proof -
  have step: "geofenceInv (checkOfficeRange w cl (Some l) (st\<lparr>currentLocation := Some l\<rparr>) # st # past)"
    for l
    by (rule inv_check [OF inv cl]) simp_all
  have same: "geofenceInv (st # st # past)"
    by (rule geofenceInv_step [OF inv]) (use inv in \<open>simp add: geofenceInv_def\<close>)
  show ?thesis
    using step same by (simp add: getCurrentLocation_def split: option.splits)
qed

lemma inv_office:
  assumes inv: "geofenceInv (st # past)" and none: "officeLocation cl = None"
  shows "geofenceInv (fst (fetchOfficeLocation w cl st) # st # past)"
proof (rule geofenceInv_step [OF inv])
  assume within: "isWithinRange (fst (fetchOfficeLocation w cl st))"
  have nocheck: "checkOfficeRange w cl l s = s" for l s
    using none by (simp add: checkOfficeRange_def)
  from within have cells: "isWithinRange st
      \<and> distance (fst (fetchOfficeLocation w cl st)) = distance st
      \<and> currentLocation (fst (fetchOfficeLocation w cl st)) = currentLocation st"
    by (auto simp: fetchOfficeLocation_def Let_def nocheck
          split: StorageResult.splits option.splits if_splits)
  from inv cells have "currentLocation st \<noteq> None" by (simp add: geofenceInv_def)
  with cells
  show "currentLocation (fst (fetchOfficeLocation w cl st)) \<noteq> None
        \<and> ((isWithinRange st \<and> distance (fst (fetchOfficeLocation w cl st)) = distance st)
            \<or> (\<exists>p\<in>set (st # past). \<exists>office meters. officeLocation p = Some office
                  \<and> distance (fst (fetchOfficeLocation w cl st)) = Some meters
                  \<and> lessEq meters (radius office)))"
    by simp
qed

lemma inv_stored:
  assumes inv: "geofenceInv (st # past)"
  shows "geofenceInv (st\<lparr>currentLocation := Some location\<rparr> # st # past)"
  by (rule geofenceInv_step [OF inv]) simp

lemma inv_sample:
  assumes inv: "geofenceInv (st # past)" and cl: "closureOf (st # past) cl"
  shows "geofenceInv (fst (watchPosition w cl location st) # st # past)"
proof (cases "case accuracy location of None \<Rightarrow> False | Some a \<Rightarrow> a \<noteq> 0 \<and> a < 30")
  case False
  have "geofenceInv (st # st # past)"
    by (rule geofenceInv_step [OF inv]) (use inv in \<open>simp add: geofenceInv_def\<close>)
  with False show ?thesis by (simp add: watchPosition_def)
next
  case True
  let ?s1 = "st\<lparr>currentLocation := Some location\<rparr>"
  show ?thesis
  proof (cases "officeLocation cl")
    case None
    have "geofenceInv (fst (fetchOfficeLocation w cl ?s1) # st # past)"
    proof (rule geofenceInv_step [OF inv])
      assume within: "isWithinRange (fst (fetchOfficeLocation w cl ?s1))"
      have nocheck: "checkOfficeRange w cl l s = s" for l s
        using None by (simp add: checkOfficeRange_def)
      from within have "isWithinRange st
          \<and> distance (fst (fetchOfficeLocation w cl ?s1)) = distance st
          \<and> currentLocation (fst (fetchOfficeLocation w cl ?s1)) = Some location"
        by (auto simp: fetchOfficeLocation_def Let_def nocheck
              split: StorageResult.splits option.splits if_splits)
      then show "currentLocation (fst (fetchOfficeLocation w cl ?s1)) \<noteq> None
        \<and> ((isWithinRange st \<and> distance (fst (fetchOfficeLocation w cl ?s1)) = distance st)
            \<or> (\<exists>p\<in>set (st # past). \<exists>office meters. officeLocation p = Some office
                  \<and> distance (fst (fetchOfficeLocation w cl ?s1)) = Some meters
                  \<and> lessEq meters (radius office)))"
        by simp
    qed
    with True None show ?thesis by (simp add: watchPosition_def Let_def)
  next
    case (Some office)
    have "geofenceInv (checkOfficeRange w cl (Some location) ?s1 # st # past)"
      by (rule inv_check [OF inv cl]) simp_all
    with True Some show ?thesis by (simp add: watchPosition_def Let_def)
  qed
qed

lemma run_inv: "run renders \<Longrightarrow> geofenceInv renders"
proof (induction rule: run.induct)
  case start
  show ?case by (simp add: geofenceInv_def initialState_def)
next
  case (located st past cl w)
  then show ?case by (simp add: inv_located)
next
  case (office st past cl w)
  then show ?case by (simp add: inv_office)
next
  case (sample st past cl w location)
  then show ?case by (simp add: inv_sample)
next
  case (stored st past location)
  then show ?case by (simp add: inv_stored)
next
  case (other st past st')
  show ?case
    by (rule geofenceInv_step [OF other.IH])
       (use other.hyps other.IH in \<open>auto simp: geofenceCells_def geofenceInv_def\<close>)
qed

text \<open>
  The refresh and the three submitting handlers leave the geofence cells as they are, so
  their runs are steps of the last kind.
\<close>

lemma geofenceCells_refresh: "geofenceCells (fst (fetchTimeRecords w cl st)) = geofenceCells st"
  by (simp add: fetchTimeRecords_def geofenceCells_def Let_def
        split: StorageResult.splits option.splits)

lemma geofenceCells_loading [simp]: "geofenceCells (st\<lparr>loading := b\<rparr>) = geofenceCells st"
  by (simp add: geofenceCells_def)

lemma geofenceCells_timeIn: "geofenceCells (fst (handleTimeIn w cl st)) = geofenceCells st"
  using handleTimeIn_shape [of w cl st] by (auto simp: geofenceCells_refresh)

lemma geofenceCells_timeOut: "geofenceCells (fst (handleTimeOut w cl st)) = geofenceCells st"
proof -
  have "geofenceCells (st\<lparr>loading := True, activeTimeRecord := None\<rparr>) = geofenceCells st"
    by (simp add: geofenceCells_def)
  then show ?thesis
    using handleTimeOut_shape [of w cl st] by (auto simp: geofenceCells_refresh)
qed

lemma geofenceCells_offset: "geofenceCells (fst (handleOffsetSubmit w cl st)) = geofenceCells st"
proof -
  have a: "geofenceCells (st\<lparr>loading := True, showOffsetModal := False\<rparr>) = geofenceCells st"
    by (simp add: geofenceCells_def)
  show ?thesis
    by (simp add: handleOffsetSubmit_def Let_def case_prod_beta geofenceCells_refresh a
          split: option.splits StorageResult.splits PostResult.splits)
qed

lemma run_handlers:
  assumes "run (st # past)"
  shows "run (fst (fetchTimeRecords w cl st) # st # past)"
    and "run (fst (handleTimeIn w cl st) # st # past)"
    and "run (fst (handleTimeOut w cl st) # st # past)"
    and "run (fst (handleOffsetSubmit w cl st) # st # past)"
  using assms geofenceCells_refresh [of w cl st] geofenceCells_timeIn [of w cl st]
    geofenceCells_timeOut [of w cl st] geofenceCells_offset [of w cl st]
  by (auto intro: run.other)

text \<open>
  C10, as amended. In every run, \<open>isWithinRange\<close> holds only if a current location is known
  and the \<open>distance\<close> cell, the one most recently computed, is a number of meters at most
  the radius of an office location that the screen has held: the one of the render whose
  handler computed the distance. \<open>checkOfficeRange\<close> changes nothing when the closure has no
  office location or the location argument is null; \<open>isWithinRange\<close> is false in the first
  render; the office-location fetch sets it to false (and the distance to null) when the
  fetch succeeds and the closure knows no current location, and sets it to false when the
  fetch fails and the default office is put in place.
\<close>

theorem geofence_invariant:
  "(run (st # past) \<longrightarrow> isWithinRange st \<longrightarrow>
        currentLocation st \<noteq> None
        \<and> (\<exists>p office d. p \<in> set (st # past) \<and> officeLocation p = Some office
               \<and> distance st = Some (Meters d) \<and> real_of_int d \<le> radius office))
   \<and> (officeLocation cl = None \<or> location = None \<longrightarrow> checkOfficeRange w cl location s = s)
   \<and> \<not> isWithinRange initialState
   \<and> (\<forall>token fetched.
         userToken w = StorageValue (Some token) \<and> token \<noteq> []
         \<and> httpGetOffice w (API_URL w @ ''/api/office-location'') = Some fetched
         \<and> currentLocation cl = None \<longrightarrow>
           \<not> isWithinRange (fst (fetchOfficeLocation w cl s))
           \<and> distance (fst (fetchOfficeLocation w cl s)) = None
           \<and> officeLocation (fst (fetchOfficeLocation w cl s)) = Some fetched)
   \<and> (userToken w = StorageRejected
        \<or> (\<exists>token. userToken w = StorageValue (Some token) \<and> token \<noteq> []
              \<and> httpGetOffice w (API_URL w @ ''/api/office-location'') = None) \<longrightarrow>
           \<not> isWithinRange (fst (fetchOfficeLocation w cl s))
           \<and> officeLocation (fst (fetchOfficeLocation w cl s)) = Some defaultOfficeLocation)"
proof -
  have inv: "currentLocation st \<noteq> None
        \<and> (\<exists>p office d. p \<in> set (st # past) \<and> officeLocation p = Some office
               \<and> distance st = Some (Meters d) \<and> real_of_int d \<le> radius office)"
    if r: "run (st # past)" and within: "isWithinRange st"
  proof -
    from run_inv [OF r] within
    have loc: "currentLocation st \<noteq> None"
      and rest: "list_ex (\<lambda>p. case officeLocation p of None \<Rightarrow> False
                          | Some office \<Rightarrow> (case distance st of None \<Rightarrow> False
                               | Some meters \<Rightarrow> lessEq meters (radius office))) (st # past)"
      by (simp_all add: geofenceInv_def)
    from rest obtain p where p: "p \<in> set (st # past)"
      and c: "case officeLocation p of None \<Rightarrow> False
              | Some office \<Rightarrow> (case distance st of None \<Rightarrow> False
                                | Some meters \<Rightarrow> lessEq meters (radius office))"
      unfolding list_ex_iff by blast
    from c obtain office meters where o: "officeLocation p = Some office"
      and m: "distance st = Some meters" and le: "lessEq meters (radius office)"
      by (auto split: option.splits)
    from le obtain d where "meters = Meters d" "real_of_int d \<le> radius office"
      by (cases meters) auto
    with loc p o m show ?thesis by blast
  qed
  have noop: "checkOfficeRange w cl location s = s"
    if "officeLocation cl = None \<or> location = None"
    using that by (auto simp: checkOfficeRange_def split: option.splits)
  have init: "\<not> isWithinRange initialState" by (simp add: initialState_def)
  have reset: "\<not> isWithinRange (fst (fetchOfficeLocation w cl s))
           \<and> distance (fst (fetchOfficeLocation w cl s)) = None
           \<and> officeLocation (fst (fetchOfficeLocation w cl s)) = Some fetched"
    if "userToken w = StorageValue (Some token) \<and> token \<noteq> []
         \<and> httpGetOffice w (API_URL w @ ''/api/office-location'') = Some fetched
         \<and> currentLocation cl = None" for token fetched
    using that by (simp add: fetchOfficeLocation_def truthy_def Let_def)
  have fallback: "\<not> isWithinRange (fst (fetchOfficeLocation w cl s))
           \<and> officeLocation (fst (fetchOfficeLocation w cl s)) = Some defaultOfficeLocation"
    if "userToken w = StorageRejected
        \<or> (\<exists>token. userToken w = StorageValue (Some token) \<and> token \<noteq> []
              \<and> httpGetOffice w (API_URL w @ ''/api/office-location'') = None)"
    using that by (auto simp: fetchOfficeLocation_def truthy_def Let_def)
  from inv noop init reset fallback show ?thesis by blast
qed

text \<open>
  A run that reaches a state in range: the office is fetched in the first render, then the
  render that holds it finds the position 100 m from it.
\<close>

lemma scenario_fetch_office:
  "fst (fetchOfficeLocation (scenarioWorld 9 (StorageValue (Some ''token'')) posted rs) initialState initialState)
     = initialState\<lparr>officeLocation := Some scenarioOffice\<rparr>"
  by (simp add: fetchOfficeLocation_def scenarioWorld_def truthy_def initialState_def)

lemma scenario_locate:
  "fst (getCurrentLocation (scenarioWorld 9 (StorageValue (Some ''token'')) posted rs)
          (initialState\<lparr>officeLocation := Some scenarioOffice\<rparr>)
          (initialState\<lparr>officeLocation := Some scenarioOffice\<rparr>))
     = initialState\<lparr>officeLocation := Some scenarioOffice, currentLocation := Some scenarioLocation,
                     distance := Some (Meters 100), isWithinRange := True\<rparr>"
proof -
  have position: "highAccuracyPosition (scenarioWorld 9 (StorageValue (Some ''token'')) posted rs)
                   = Some scenarioLocation"
    by (simp add: scenarioWorld_def)
  show ?thesis
    using scenario_distance_100 [of 9 "StorageValue (Some ''token'')" posted rs]
    by (simp add: getCurrentLocation_def position checkOfficeRange_def scenarioOffice_def
          scenarioLocation_def initialState_def)
qed

lemma scenario_run:
  "run [initialState\<lparr>officeLocation := Some scenarioOffice, currentLocation := Some scenarioLocation,
                     distance := Some (Meters 100), isWithinRange := True\<rparr>,
        initialState\<lparr>officeLocation := Some scenarioOffice\<rparr>,
        initialState]"
proof -
  let ?w = "scenarioWorld 9 (StorageValue (Some ''token'')) (PostOk ''ok'') (Some [])"
  let ?s1 = "initialState\<lparr>officeLocation := Some scenarioOffice\<rparr>"
  have "run [fst (fetchOfficeLocation ?w initialState initialState), initialState]"
    by (rule run.office [OF run.start]) (simp_all add: closureOf_def initialState_def)
  then have b: "run [?s1, initialState]"
    by (simp add: scenario_fetch_office)
  have "run [fst (getCurrentLocation ?w ?s1 ?s1), ?s1, initialState]"
    by (rule run.located [OF b]) (simp add: closureOf_def)
  then show ?thesis by (simp add: scenario_locate)
qed

theorem geofence_invariant_witness:
  "run [initialState\<lparr>officeLocation := Some scenarioOffice, currentLocation := Some scenarioLocation,
                     distance := Some (Meters 100), isWithinRange := True\<rparr>,
        initialState\<lparr>officeLocation := Some scenarioOffice\<rparr>,
        initialState]
   \<and> isWithinRange (initialState\<lparr>officeLocation := Some scenarioOffice, currentLocation := Some scenarioLocation,
                     distance := Some (Meters 100), isWithinRange := True\<rparr>)
   \<and> (\<exists>p office d.
          p \<in> set [initialState\<lparr>officeLocation := Some scenarioOffice,
                     currentLocation := Some scenarioLocation,
                     distance := Some (Meters 100), isWithinRange := True\<rparr>,
                   initialState\<lparr>officeLocation := Some scenarioOffice\<rparr>,
                   initialState]
          \<and> officeLocation p = Some office
          \<and> distance (initialState\<lparr>officeLocation := Some scenarioOffice,
                     currentLocation := Some scenarioLocation,
                     distance := Some (Meters 100), isWithinRange := True\<rparr>) = Some (Meters d)
          \<and> real_of_int d \<le> radius office)
   \<and> \<not> isWithinRange (fst (fetchOfficeLocation
          (scenarioWorld 9 StorageRejected (PostOk ''ok'') (Some [])) scenarioState scenarioState))
   \<and> officeLocation (fst (fetchOfficeLocation
          (scenarioWorld 9 StorageRejected (PostOk ''ok'') (Some [])) scenarioState scenarioState))
      = Some defaultOfficeLocation"
proof -
  let ?s = "initialState\<lparr>officeLocation := Some scenarioOffice, currentLocation := Some scenarioLocation,
                     distance := Some (Meters 100), isWithinRange := True\<rparr>"
  let ?past = "[initialState\<lparr>officeLocation := Some scenarioOffice\<rparr>, initialState]"
  let ?w = "scenarioWorld 9 StorageRejected (PostOk ''ok'') (Some [])"
  have within: "isWithinRange ?s" by simp
  note t = geofence_invariant [of ?s ?past scenarioState None ?w scenarioState]
  from t [THEN conjunct1, rule_format, OF scenario_run within]
  have ex: "\<exists>p office d. p \<in> set (?s # ?past) \<and> officeLocation p = Some office
              \<and> distance ?s = Some (Meters d) \<and> real_of_int d \<le> radius office"
    by (rule conjunct2)
  have rej: "userToken ?w = StorageRejected
        \<or> (\<exists>token. userToken ?w = StorageValue (Some token) \<and> token \<noteq> []
              \<and> httpGetOffice ?w (API_URL ?w @ ''/api/office-location'') = None)"
    by (simp add: scenarioWorld_def)
  note fb = t [THEN conjunct2, THEN conjunct2, THEN conjunct2, THEN conjunct2, rule_format, OF rej]
  show ?thesis
    by (rule conjI [OF scenario_run conjI [OF within conjI [OF ex fb]]])
qed

text \<open>
  The claim as written, with the office location that the state holds, fails on a run in
  which a handler writes after the office location has changed: the position request of
  the render that held the office of radius 500 m resolves after the default office of
  radius 100 m has been put in place, and sets \<open>isWithinRange\<close> at 300 m.
\<close>

lemma wideFetched_eq: "wideFetched = initialState\<lparr>officeLocation := Some wideOffice\<rparr>"
  by (simp add: wideFetched_def fetchOfficeLocation_def scenarioWorld_def truthy_def
        initialState_def)

lemma defaultSubstituted_eq:
  "defaultSubstituted = initialState\<lparr>officeLocation := Some defaultOfficeLocation\<rparr>"
  by (simp add: defaultSubstituted_def wideFetched_eq fetchOfficeLocation_def scenarioWorld_def
        truthy_def initialState_def)

lemma staleLocated_eq:
  "staleLocated = initialState\<lparr>officeLocation := Some defaultOfficeLocation,
                     currentLocation := Some farLocation,
                     distance := Some (Meters 300), isWithinRange := True\<rparr>"
proof -
  have position: "highAccuracyPosition
        ((scenarioWorld 9 (StorageValue (Some ''token'')) (PostOk ''ok'') (Some []))
              \<lparr>highAccuracyPosition := Some farLocation\<rparr>) = Some farLocation"
    by simp
  show ?thesis
    unfolding staleLocated_def
    using scenario_distance_300 [of 9 "StorageValue (Some ''token'')" "PostOk ''ok''" "Some []"]
    by (simp add: getCurrentLocation_def position checkOfficeRange_def roundedHaversine_position
          wideFetched_eq defaultSubstituted_eq wideOffice_def scenarioOffice_def farLocation_def
          initialState_def)
qed

lemma stale_run: "run [staleLocated, defaultSubstituted, wideFetched, initialState]"
proof -
  have a: "run [wideFetched, initialState]"
    unfolding wideFetched_def
    by (rule run.office [OF run.start]) (simp_all add: closureOf_def initialState_def)
  have b: "run [defaultSubstituted, wideFetched, initialState]"
    unfolding defaultSubstituted_def
    by (rule run.office [OF a]) (simp_all add: closureOf_def initialState_def)
  show ?thesis
    unfolding staleLocated_def
    by (rule run.located [OF b]) (simp add: closureOf_def)
qed

theorem geofence_stale_office_counterexample:
  "run [staleLocated, defaultSubstituted, wideFetched, initialState]
   \<and> isWithinRange staleLocated
   \<and> distance staleLocated = Some (Meters 300)
   \<and> officeLocation staleLocated = Some defaultOfficeLocation
   \<and> radius defaultOfficeLocation = 100
   \<and> \<not> lessEq (Meters 300) (radius defaultOfficeLocation)"
proof -
  have cells: "isWithinRange staleLocated \<and> distance staleLocated = Some (Meters 300)
   \<and> officeLocation staleLocated = Some defaultOfficeLocation
   \<and> radius defaultOfficeLocation = 100
   \<and> \<not> lessEq (Meters 300) (radius defaultOfficeLocation)"
    by (simp add: staleLocated_eq defaultOfficeLocation_def)
  show ?thesis by (rule conjI [OF stale_run cells])
qed

section \<open>Geofence membership\<close>

text \<open>
  C7. When an office location is known, \<open>checkOfficeRange\<close> stores the rounded distance and
  sets \<open>isWithinRange\<close> to true exactly when that distance is a number of meters that is at
  most the office radius: true for every distance \<open>d \<le> r\<close>, false for every \<open>d > r\<close>, and this
  for whatever value the haversine computation returns on whatever engine.
\<close>

theorem checkOfficeRange_within:
  assumes office: "officeLocation cl = Some office"
      and coords: "coordinates office = officeLong # officeLat # rest"
      and computed: "roundedHaversine w (latitude loc) (longitude loc) officeLat officeLong = computed"
  shows "distance (checkOfficeRange w cl (Some loc) st) = Some computed
       \<and> (isWithinRange (checkOfficeRange w cl (Some loc) st)
            \<longleftrightarrow> (\<exists>d. computed = Meters d \<and> real_of_int d \<le> radius office))
       \<and> (\<forall>d. computed = Meters d \<and> real_of_int d \<le> radius office
              \<longrightarrow> isWithinRange (checkOfficeRange w cl (Some loc) st))
       \<and> (\<forall>d. computed = Meters d \<and> radius office < real_of_int d
              \<longrightarrow> \<not> isWithinRange (checkOfficeRange w cl (Some loc) st))"
proof -
  have st': "checkOfficeRange w cl (Some loc) st
              = st\<lparr>distance := Some computed, isWithinRange := lessEq computed (radius office)\<rparr>"
    using office coords computed by (simp add: checkOfficeRange_def)
  show ?thesis
    unfolding st' by (cases computed) auto
qed

text \<open>
  At the boundary: the user 0.0009 degrees north of an office of radius 100 m is at 100 m
  and inside; at 0.00091 degrees north the distance is 101 m and the user is outside.
\<close>

theorem checkOfficeRange_within_witness:
  "isWithinRange (checkOfficeRange
       (scenarioWorld 9 (StorageValue (Some ''token'')) (PostOk ''ok'') (Some []))
       scenarioState (Some scenarioLocation) initialState)
   \<and> \<not> isWithinRange (checkOfficeRange
       (scenarioWorld 9 (StorageValue (Some ''token'')) (PostOk ''ok'') (Some []))
       scenarioState (Some (scenarioLocation\<lparr>latitude := 18.20671\<rparr>)) scenarioState)"
proof -
  let ?w = "scenarioWorld 9 (StorageValue (Some ''token'')) (PostOk ''ok'') (Some [])"
  let ?beyond = "scenarioLocation\<lparr>latitude := 18.20671\<rparr>"
  have office: "officeLocation scenarioState = Some scenarioOffice"
    by (simp add: scenarioState_def)
  have coords: "coordinates scenarioOffice = 120.5910 # 18.2058 # []"
    by (simp add: scenarioOffice_def)
  have c100: "roundedHaversine ?w (latitude scenarioLocation) (longitude scenarioLocation) 18.2058 120.5910
               = Meters 100"
    using scenario_distance_100 [of 9 "StorageValue (Some ''token'')" "PostOk ''ok''" "Some []"]
    by (simp add: scenarioLocation_def)
  have c101: "roundedHaversine ?w (latitude ?beyond) (longitude ?beyond) 18.2058 120.5910
               = Meters 101"
    using scenario_distance_101 [of 9 "StorageValue (Some ''token'')" "PostOk ''ok''" "Some []"]
    by (simp add: scenarioLocation_def)
  have le: "Meters 100 = Meters 100 \<and> real_of_int 100 \<le> radius scenarioOffice"
    by (simp add: scenarioOffice_def)
  have gt: "Meters 101 = Meters 101 \<and> radius scenarioOffice < real_of_int 101"
    by (simp add: scenarioOffice_def)
  note inside = checkOfficeRange_within [OF office coords c100, of initialState,
                  THEN conjunct2, THEN conjunct2, THEN conjunct1, rule_format, OF le]
  note outside = checkOfficeRange_within [OF office coords c101, of scenarioState,
                  THEN conjunct2, THEN conjunct2, THEN conjunct2, rule_format, OF gt]
  show ?thesis by (rule conjI [OF inside outside])
qed

section \<open>Samples of the location watch\<close>

lemma currentLocation_check:
  "currentLocation (checkOfficeRange w cl location s) = currentLocation s"
  by (simp add: checkOfficeRange_def Let_def split: option.splits)

lemma currentLocation_fetch:
  "currentLocation (fst (fetchOfficeLocation w cl s)) = currentLocation s"
  by (simp add: fetchOfficeLocation_def Let_def currentLocation_check
        split: StorageResult.splits option.splits)

text \<open>
  C8, as amended. A sample whose accuracy is at least 30 changes no state and is only
  logged; so is a sample whose accuracy is missing or zero. A sample whose accuracy is
  below 30 and not zero becomes \<open>currentLocation\<close>; then, if the closure has an office
  location, the distance to it is recomputed and \<open>isWithinRange\<close> set from it, and if it has
  none, the office-location fetch is run instead.
\<close>

theorem watchPosition_filter:
  "(\<forall>a. accuracy location = Some a \<and> 30 \<le> a \<longrightarrow>
        watchPosition w cl location st
          = (st, [ConsoleLog ''Ignored location update due to low accuracy:'' (Some a)]))
   \<and> (accuracy location = None \<or> accuracy location = Some 0 \<longrightarrow>
        watchPosition w cl location st
          = (st, [ConsoleLog ''Ignored location update due to low accuracy:'' (accuracy location)]))
   \<and> (\<forall>a. accuracy location = Some a \<and> a < 30 \<and> a \<noteq> 0 \<longrightarrow>
        currentLocation (fst (watchPosition w cl location st)) = Some location
        \<and> (officeLocation cl \<noteq> None \<longrightarrow>
              watchPosition w cl location st
                = (checkOfficeRange w cl (Some location) (st\<lparr>currentLocation := Some location\<rparr>), []))
        \<and> (\<forall>office officeLong officeLat rest.
              officeLocation cl = Some office \<and> coordinates office = officeLong # officeLat # rest \<longrightarrow>
                distance (fst (watchPosition w cl location st))
                  = Some (roundedHaversine w (latitude location) (longitude location) officeLat officeLong)
                \<and> isWithinRange (fst (watchPosition w cl location st))
                  = lessEq (roundedHaversine w (latitude location) (longitude location) officeLat officeLong)
                      (radius office))
        \<and> (officeLocation cl = None \<longrightarrow>
              watchPosition w cl location st
                = fetchOfficeLocation w cl (st\<lparr>currentLocation := Some location\<rparr>)))"
proof -
  have poor: "watchPosition w cl location st
          = (st, [ConsoleLog ''Ignored location update due to low accuracy:'' (Some a)])"
    if "accuracy location = Some a \<and> 30 \<le> a" for a
    using that by (simp add: watchPosition_def)
  have unknown: "watchPosition w cl location st
          = (st, [ConsoleLog ''Ignored location update due to low accuracy:'' (accuracy location)])"
    if "accuracy location = None \<or> accuracy location = Some 0"
    using that by (auto simp: watchPosition_def)
  have good: "currentLocation (fst (watchPosition w cl location st)) = Some location
        \<and> (officeLocation cl \<noteq> None \<longrightarrow>
              watchPosition w cl location st
                = (checkOfficeRange w cl (Some location) (st\<lparr>currentLocation := Some location\<rparr>), []))
        \<and> (\<forall>office officeLong officeLat rest.
              officeLocation cl = Some office \<and> coordinates office = officeLong # officeLat # rest \<longrightarrow>
                distance (fst (watchPosition w cl location st))
                  = Some (roundedHaversine w (latitude location) (longitude location) officeLat officeLong)
                \<and> isWithinRange (fst (watchPosition w cl location st))
                  = lessEq (roundedHaversine w (latitude location) (longitude location) officeLat officeLong)
                      (radius office))
        \<and> (officeLocation cl = None \<longrightarrow>
              watchPosition w cl location st
                = fetchOfficeLocation w cl (st\<lparr>currentLocation := Some location\<rparr>))"
    if acc: "accuracy location = Some a \<and> a < 30 \<and> a \<noteq> 0" for a
  proof (cases "officeLocation cl")
    case None
    with acc have "watchPosition w cl location st
                = fetchOfficeLocation w cl (st\<lparr>currentLocation := Some location\<rparr>)"
      by (simp add: watchPosition_def Let_def)
    with None show ?thesis by (simp add: currentLocation_fetch)
  next
    case (Some office)
    with acc have run: "watchPosition w cl location st
                = (checkOfficeRange w cl (Some location) (st\<lparr>currentLocation := Some location\<rparr>), [])"
      by (simp add: watchPosition_def Let_def)
    with Some show ?thesis
      by (auto simp: currentLocation_check checkOfficeRange_def Let_def)
  qed
  from poor unknown good show ?thesis by blast
qed

text \<open>
  A sample of accuracy 45 m is dropped; a sample of accuracy 5 m taken at the office is
  stored and found in range at distance 0.
\<close>

theorem watchPosition_filter_witness:
  "watchPosition (scenarioWorld 9 (StorageValue (Some ''token'')) (PostOk ''ok'') (Some []))
       scenarioState (scenarioLocation\<lparr>accuracy := Some 45\<rparr>) scenarioState
     = (scenarioState, [ConsoleLog ''Ignored location update due to low accuracy:'' (Some 45)])
   \<and> currentLocation (fst (watchPosition (scenarioWorld 9 (StorageValue (Some ''token'')) (PostOk ''ok'') (Some []))
       scenarioState (zeroAccuracySample\<lparr>accuracy := Some 5\<rparr>) initialState))
     = Some (zeroAccuracySample\<lparr>accuracy := Some 5\<rparr>)
   \<and> distance (fst (watchPosition (scenarioWorld 9 (StorageValue (Some ''token'')) (PostOk ''ok'') (Some []))
       scenarioState (zeroAccuracySample\<lparr>accuracy := Some 5\<rparr>) initialState))
     = Some (Meters 0)
   \<and> isWithinRange (fst (watchPosition (scenarioWorld 9 (StorageValue (Some ''token'')) (PostOk ''ok'') (Some []))
       scenarioState (zeroAccuracySample\<lparr>accuracy := Some 5\<rparr>) initialState))"
proof -
  let ?w = "scenarioWorld 9 (StorageValue (Some ''token'')) (PostOk ''ok'') (Some [])"
  let ?poor = "scenarioLocation\<lparr>accuracy := Some 45\<rparr>"
  let ?good = "zeroAccuracySample\<lparr>accuracy := Some 5\<rparr>"
  have p: "accuracy ?poor = Some 45 \<and> (30::real) \<le> 45" by simp
  have g: "accuracy ?good = Some 5 \<and> (5::real) < 30 \<and> (5::real) \<noteq> 0" by simp
  have o: "officeLocation scenarioState = Some scenarioOffice
            \<and> coordinates scenarioOffice = 120.5910 # 18.2058 # []"
    by (simp add: scenarioState_def scenarioOffice_def)
  note a = watchPosition_filter [of ?poor ?w scenarioState scenarioState,
             THEN conjunct1, rule_format, OF p]
  note b = watchPosition_filter [of ?good ?w scenarioState initialState,
             THEN conjunct2, THEN conjunct2, rule_format, OF g]
  note b1 = b [THEN conjunct1]
  note b3 = b [THEN conjunct2, THEN conjunct2, THEN conjunct1, rule_format, OF o]
  note at_office = scenario_distance_0 [of 9 "StorageValue (Some ''token'')" "PostOk ''ok''" "Some []"]
  from b3 at_office
  have d: "distance (fst (watchPosition ?w scenarioState ?good initialState)) = Some (Meters 0)"
    by (simp add: zeroAccuracySample_def)
  from b3 at_office
  have i: "isWithinRange (fst (watchPosition ?w scenarioState ?good initialState))"
    by (simp add: zeroAccuracySample_def scenarioOffice_def)
  show ?thesis by (rule conjI [OF a conjI [OF b1 conjI [OF d i]]])
qed

text \<open>
  The claim as written fails for an accuracy of zero, which is below 30: the sample, taken
  at the office itself, is dropped, and the cells still say 100 m.
\<close>

theorem watchPosition_zero_accuracy_counterexample:
  "accuracy zeroAccuracySample = Some 0 \<and> (0::real) < 30
   \<and> fst (watchPosition (scenarioWorld 9 (StorageValue (Some ''token'')) (PostOk ''ok'') (Some []))
            scenarioState zeroAccuracySample scenarioState) = scenarioState
   \<and> currentLocation scenarioState \<noteq> Some zeroAccuracySample
   \<and> distance scenarioState = Some (Meters 100)
   \<and> roundedHaversine (scenarioWorld 9 (StorageValue (Some ''token'')) (PostOk ''ok'') (Some []))
        (latitude zeroAccuracySample) (longitude zeroAccuracySample) 18.2058 120.5910 = Meters 0"
  using scenario_distance_0 [of 9 "StorageValue (Some ''token'')" "PostOk ''ok''" "Some []"]
  by (simp add: watchPosition_def zeroAccuracySample_def scenarioState_def scenarioLocation_def)


end
